theory Spec2Isabelle
  imports Main "HOL-Library.Multiset"
begin

section \<open>trello2md: the export pipeline\<close>

text \<open>
  The program reads boards, lists, cards and their sub-resources through a Trello client
  and prints a Markdown document on standard output. The model covers the newer of the two
  variants of the program (the one with the show flags and the attachments).

  Standard output is modelled as the text written so far; a function that prints returns
  the text it wrote together with its result. Go's two ways of failing are kept apart: an
  error returned as a value (\<open>Err\<close>) and a panic (\<open>Panic\<close>), which \<open>log.Panic\<close> raises.
  What \<open>log.Panic\<close> writes goes to standard error and is not part of the output.
\<close>

subsection \<open>Errors, results and printing\<close>

datatype err =
    ApiError string     \<comment> \<open>an error reported by the Trello client\<close>
  | ParseError string   \<comment> \<open>the error of \<open>time.Parse\<close> on the given text\<close>
  | ErrorsNew string    \<comment> \<open>\<open>errors.New(msg)\<close>\<close>

datatype 'a result = Ok 'a | Err err | Panic err

type_synonym 'a io = "string \<times> 'a result"

text \<open>
  \<open>andThen m k\<close> is one statement after another: when \<open>m\<close> has failed, what it printed and
  its failure are the outcome (Go's \<open>if err != nil { return err }\<close>, or the panic unwinding);
  otherwise \<open>k\<close> runs on the value of \<open>m\<close> and its text follows that of \<open>m\<close>. \<open>Printf\<close> prints a
  text, \<open>skip\<close> does nothing, \<open>silent\<close> is a call that prints nothing, and \<open>fetched\<close> turns the
  answer of a client call into a result.
\<close>

definition andThen :: "'a io \<Rightarrow> ('a \<Rightarrow> 'b io) \<Rightarrow> 'b io" where
  "andThen m k =
     (case m of
        (out, Ok a) \<Rightarrow> (case k a of (out', r) \<Rightarrow> (out @ out', r))
      | (out, Err e) \<Rightarrow> (out, Err e)
      | (out, Panic e) \<Rightarrow> (out, Panic e))"

definition Printf :: "string \<Rightarrow> unit io" where
  "Printf s = (s, Ok ())"

definition skip :: "unit io" where
  "skip = ([], Ok ())"

definition silent :: "'a result \<Rightarrow> 'a io" where
  "silent r = ([], r)"

definition fetched :: "err + 'a \<Rightarrow> 'a result" where
  "fetched r = (case r of Inl e \<Rightarrow> Err e | Inr v \<Rightarrow> Ok v)"

text \<open>\<open>for _, x := range xs { ... }\<close> with a body that may return early with an error.\<close>

fun forEach :: "('a \<Rightarrow> unit io) \<Rightarrow> 'a list \<Rightarrow> unit io" where
  "forEach body [] = skip"
| "forEach body (x # xs) = andThen (body x) (\<lambda>_. forEach body xs)"

subsection \<open>The Trello data, with the answers of the client\<close>

text \<open>
  The client's read calls (\<open>card.Members()\<close>, \<open>board.Lists()\<close>, ...) are network reads. Each
  is modelled as a field holding the answer the call gives: the sequence, or the error.
\<close>

record Member =
  member_FullName :: string

record Label =
  label_Name :: string

record CheckItem =
  checkItem_State :: string
  checkItem_Name :: string

record Checklist =
  checklist_Name :: string
  checklist_CheckItems :: "CheckItem list"

record Attachment =
  attachment_Name :: string
  attachment_Url :: string

record Action =
  action_Type :: string
  action_Date :: string
  action_MemberCreator :: Member
  action_Data_Text :: string

record Card =
  card_Name :: string
  card_Url :: string
  card_Desc :: string
  card_DateLastActivity :: string
  card_Labels :: "Label list"
  card_Members :: "err + Member list"
  card_Checklists :: "err + Checklist list"
  card_Actions :: "err + Action list"
  card_Attachments :: "err + Attachment list"

record List =
  list_Name :: string
  list_Cards :: "err + Card list"

record Board =
  board_Name :: string
  board_Lists :: "err + List list"

record Client =
  client_Board :: "string \<Rightarrow> err + Board"

subsection \<open>The libraries: time, strings, sort, the command line\<close>

text \<open>
  A \<open>time.Time\<close> is an instant with the zone offset it is displayed in. \<open>Before\<close> compares
  instants. \<open>time.Parse(time.RFC3339, _)\<close>, \<open>Format(dateFormat)\<close> with the program's
  \<open>dateFormat = "2006-01-02"\<close>, \<open>time.Now()\<close> and the constructor of the client belong to
  libraries outside the program: they are parameters of the model (\<open>time_Parse\<close>,
  \<open>time_Format\<close>, \<open>time_Now\<close>, \<open>trello_NewAuthClient\<close>), and every theorem holds for whatever
  they are.
\<close>

datatype Time = Time (unixNano: int) (zoneOffset: int)

definition Before :: "Time \<Rightarrow> Time \<Rightarrow> bool" where
  "Before t u = (unixNano t < unixNano u)"

record World =
  time_Parse :: "string \<Rightarrow> err + Time"
  time_Format :: "Time \<Rightarrow> string"
  time_Now :: Time
  trello_NewAuthClient :: "string \<Rightarrow> string \<Rightarrow> err + Client"

record Context =
  GlobalString_key :: string
  GlobalString_token :: string
  StringSlice_board_id :: "string list"
  String_list_filter :: string
  Bool_show_labels_and_members :: bool
  Bool_show_description :: bool
  Bool_show_checklists :: bool
  Bool_show_comments :: bool
  Bool_show_attachments :: bool

definition commentCardAction :: string where
  "commentCardAction = ''commentCard''"

text \<open>\<open>strings.Join(elems, sep)\<close>.\<close>

fun strings_Join :: "string list \<Rightarrow> string \<Rightarrow> string" where
  "strings_Join [] sep = []"
| "strings_Join [x] sep = x"
| "strings_Join (x # y # ys) sep = x @ sep @ strings_Join (y # ys) sep"

text \<open>
  \<open>strings.Replace(s, old, new, -1)\<close>: every non-overlapping occurrence of \<open>old\<close>, from the
  left, is replaced by \<open>new\<close>. The program calls it with a one-character \<open>old\<close>; for an
  empty \<open>old\<close> (where Go inserts \<open>new\<close> around every rune) the model returns \<open>s\<close>.
\<close>

fun strings_Replace :: "string \<Rightarrow> string \<Rightarrow> string \<Rightarrow> string" where
  "strings_Replace [] old new = []"
| "strings_Replace (c # cs) old new =
     (if old \<noteq> [] \<and> take (length old) (c # cs) = old
      then new @ strings_Replace (drop (length old - 1) cs) old new
      else c # strings_Replace cs old new)"

text \<open>
  \<open>sort.Slice(xs, less)\<close>. The model is the library's insertion sort, the routine it runs on
  short slices:
  \<^verbatim>\<open>
  for i := a + 1; i < b; i++ {
      for j := i; j > a && data.Less(j, j-1); j-- { data.Swap(j, j-1) }
  }
  \<close>
  On longer slices the library runs other comparison sorts; sort.Slice is not stable.
  The comparator of the program can panic, so \<open>lessFn\<close> returns a result and the sort stops
  at the first panic. \<open>siftLeft lessFn x left\<close> moves \<open>x\<close> leftwards into the elements before
  it, which are given nearest first.
\<close>

fun siftLeft :: "('a \<Rightarrow> 'a \<Rightarrow> bool result) \<Rightarrow> 'a \<Rightarrow> 'a list \<Rightarrow> 'a list result" where
  "siftLeft lessFn x [] = Ok [x]"
| "siftLeft lessFn x (y # left) =
     (case lessFn x y of
        Ok True \<Rightarrow> (case siftLeft lessFn x left of
                      Ok left' \<Rightarrow> Ok (y # left')
                    | Err e \<Rightarrow> Err e
                    | Panic e \<Rightarrow> Panic e)
      | Ok False \<Rightarrow> Ok (x # y # left)
      | Err e \<Rightarrow> Err e
      | Panic e \<Rightarrow> Panic e)"

fun insertionSort :: "('a \<Rightarrow> 'a \<Rightarrow> bool result) \<Rightarrow> 'a list \<Rightarrow> 'a list \<Rightarrow> 'a list result" where
  "insertionSort lessFn left [] = Ok (rev left)"
| "insertionSort lessFn left (x # rest) =
     (case siftLeft lessFn x left of
        Ok left' \<Rightarrow> insertionSort lessFn left' rest
      | Err e \<Rightarrow> Err e
      | Panic e \<Rightarrow> Panic e)"

definition sort_Slice :: "'a list \<Rightarrow> ('a \<Rightarrow> 'a \<Rightarrow> bool result) \<Rightarrow> 'a list result" where
  "sort_Slice xs lessFn = insertionSort lessFn [] xs"

subsection \<open>The program\<close>

definition printDate :: "World \<Rightarrow> unit io" where
  "printDate W = Printf (''## '' @ time_Format W (time_Now W) @ ''\<newline>'')"

fun getBoards :: "Client \<Rightarrow> string list \<Rightarrow> Board list result" where
  "getBoards client [] = Ok []"
| "getBoards client (boardId # boardIds) =
     (case client_Board client boardId of
        Inl e \<Rightarrow> Err e
      | Inr board \<Rightarrow>
          (case getBoards client boardIds of
             Ok boards \<Rightarrow> Ok (board # boards)
           | Err e \<Rightarrow> Err e
           | Panic e \<Rightarrow> Panic e))"

definition printBoard :: "Board \<Rightarrow> unit io" where
  "printBoard board = Printf (''### '' @ board_Name board @ ''\<newline>'')"

text \<open>The loop of \<open>getList\<close> over the lists, returning at the first match.\<close>

fun firstNamed :: "List list \<Rightarrow> string \<Rightarrow> List result" where
  "firstNamed [] listFilter = Err (ErrorsNew ''no matching list found'')"
| "firstNamed (l # ls) listFilter =
     (if list_Name l = listFilter then Ok l else firstNamed ls listFilter)"

definition getList :: "Board \<Rightarrow> string \<Rightarrow> List result" where
  "getList board listFilter =
     (case board_Lists board of
        Inl e \<Rightarrow> Err e
      | Inr ls \<Rightarrow> firstNamed ls listFilter)"

text \<open>The comparator \<open>getCards\<close> passes to \<open>sort.Slice\<close>.\<close>

definition cardLess :: "World \<Rightarrow> Card \<Rightarrow> Card \<Rightarrow> bool result" where
  "cardLess W ci cj =
     (case time_Parse W (card_DateLastActivity ci) of
        Inl e \<Rightarrow> Panic e
      | Inr iDate \<Rightarrow>
          (case time_Parse W (card_DateLastActivity cj) of
             Inl e \<Rightarrow> Panic e
           | Inr jDate \<Rightarrow> Ok (Before iDate jDate)))"

definition getCards :: "World \<Rightarrow> List \<Rightarrow> Card list result" where
  "getCards W l =
     (case list_Cards l of
        Inl e \<Rightarrow> Err e
      | Inr cards \<Rightarrow> sort_Slice cards (cardLess W))"

definition printCardTitle :: "World \<Rightarrow> Card \<Rightarrow> unit io" where
  "printCardTitle W crd =
     (case time_Parse W (card_DateLastActivity crd) of
        Inl e \<Rightarrow> silent (Err e)
      | Inr lastActivity \<Rightarrow>
          Printf (''#### **'' @ time_Format W lastActivity @ ''** ['' @ card_Name crd
                  @ '']('' @ card_Url crd @ '')\<newline>''))"

definition printCardLabelsAndMembers :: "Card \<Rightarrow> unit io" where
  "printCardLabelsAndMembers crd =
     andThen (Printf ''##### '') (\<lambda>_.
     andThen (forEach (\<lambda>label. Printf (''`'' @ label_Name label @ ''` '')) (card_Labels crd)) (\<lambda>_.
     andThen (silent (fetched (card_Members crd))) (\<lambda>members.
       Printf (''- **['' @ strings_Join (map member_FullName members) '', '' @ '']**\<newline>''))))"

definition printCardDescription :: "Card \<Rightarrow> unit io" where
  "printCardDescription crd = Printf (card_Desc crd @ ''\<newline>\<newline>'')"

definition getCardCheckLists :: "Card \<Rightarrow> Checklist list result" where
  "getCardCheckLists crd = fetched (card_Checklists crd)"

text \<open>The body of the loop of \<open>printCardChecklist\<close> over the check items.\<close>

definition printCheckItem :: "CheckItem \<Rightarrow> unit io" where
  "printCheckItem checkItem =
     (if checkItem_State checkItem = ''complete''
      then Printf (''- [x] '' @ checkItem_Name checkItem @ ''\<newline>'')
      else Printf (''- [ ] '' @ checkItem_Name checkItem @ ''\<newline>''))"

definition printCardChecklist :: "Checklist \<Rightarrow> unit io" where
  "printCardChecklist checklist =
     andThen (Printf (checklist_Name checklist @ ''\<newline>'')) (\<lambda>_.
     andThen (forEach printCheckItem (checklist_CheckItems checklist)) (\<lambda>_.
       Printf ''\<newline>''))"

text \<open>The comparator \<open>getCardComments\<close> passes to \<open>sort.Slice\<close>.\<close>

definition actionLess :: "World \<Rightarrow> Action \<Rightarrow> Action \<Rightarrow> bool result" where
  "actionLess W ai aj =
     (case time_Parse W (action_Date ai) of
        Inl e \<Rightarrow> Panic e
      | Inr iDate \<Rightarrow>
          (case time_Parse W (action_Date aj) of
             Inl e \<Rightarrow> Panic e
           | Inr jDate \<Rightarrow> Ok (Before iDate jDate)))"

definition getCardComments :: "World \<Rightarrow> Card \<Rightarrow> Action list result" where
  "getCardComments W crd =
     (case card_Actions crd of
        Inl e \<Rightarrow> Err e
      | Inr actions \<Rightarrow>
          sort_Slice (filter (\<lambda>action. action_Type action = commentCardAction) actions)
            (actionLess W))"

definition printCardComment :: "World \<Rightarrow> Action \<Rightarrow> unit io" where
  "printCardComment W commentAction =
     (case time_Parse W (action_Date commentAction) of
        Inl e \<Rightarrow> silent (Err e)
      | Inr actionDate \<Rightarrow>
          andThen (Printf (''> **'' @ time_Format W actionDate @ ''** - **''
                           @ member_FullName (action_MemberCreator commentAction) @ '':**\<newline>'')) (\<lambda>_.
            Printf (''> '' @ strings_Replace (action_Data_Text commentAction) ''\<newline>'' ''\<newline>> ''
                    @ ''\<newline>\<newline>'')))"

definition getCardAttachments :: "Card \<Rightarrow> Attachment list result" where
  "getCardAttachments crd = fetched (card_Attachments crd)"

definition printCardAttachment :: "Attachment \<Rightarrow> unit io" where
  "printCardAttachment attatchment =
     andThen (Printf (''['' @ attachment_Name attatchment @ '']('' @ attachment_Url attatchment @ '')\<newline>'')) (\<lambda>_.
       Printf (''![]('' @ attachment_Url attatchment @ '')\<newline>\<newline>''))"

text \<open>The body of the loop over the cards of a list.\<close>

definition exportCard :: "World \<Rightarrow> Context \<Rightarrow> Card \<Rightarrow> unit io" where
  "exportCard W c crd =
     andThen (printCardTitle W crd) (\<lambda>_.
     andThen (if Bool_show_labels_and_members c then printCardLabelsAndMembers crd else skip) (\<lambda>_.
     andThen (if Bool_show_description c then printCardDescription crd else skip) (\<lambda>_.
     andThen (if Bool_show_attachments c
              then andThen (silent (getCardAttachments crd)) (forEach printCardAttachment)
              else skip) (\<lambda>_.
     andThen (if Bool_show_checklists c
              then andThen (silent (getCardCheckLists crd)) (forEach printCardChecklist)
              else skip) (\<lambda>_.
       if Bool_show_comments c
       then andThen (silent (getCardComments W crd)) (forEach (printCardComment W))
       else skip)))))"

text \<open>The body of the loop over the boards.\<close>

definition exportBoard :: "World \<Rightarrow> Context \<Rightarrow> Board \<Rightarrow> unit io" where
  "exportBoard W c board =
     andThen (printBoard board) (\<lambda>_.
     andThen (silent (getList board (String_list_filter c))) (\<lambda>l.
     andThen (silent (getCards W l)) (\<lambda>cards.
       forEach (exportCard W c) cards)))"

definition exportBoards :: "World \<Rightarrow> Context \<Rightarrow> unit io" where
  "exportBoards W c =
     andThen (silent (fetched (trello_NewAuthClient W (GlobalString_key c) (GlobalString_token c)))) (\<lambda>client.
     andThen (printDate W) (\<lambda>_.
     andThen (silent (getBoards client (StringSlice_board_id c))) (\<lambda>boards.
       forEach (exportBoard W c) boards)))"

subsection \<open>A concrete world: whole-second UTC timestamps\<close>

text \<open>
  An instance of the library parameters, used to run the model on concrete inputs. Its
  parser accepts the texts of the shape \<open>YYYY-MM-DDThh:mm:ssZ\<close> that denote a valid date and
  time, which RFC3339 accepts too, and rejects every other text.
\<close>

definition digitVal :: "char \<Rightarrow> int option" where
  "digitVal c =
     (let n = (of_char c :: nat) in if 48 \<le> n \<and> n \<le> 57 then Some (int n - 48) else None)"

fun digitsVal :: "int \<Rightarrow> string \<Rightarrow> int option" where
  "digitsVal acc [] = Some acc"
| "digitsVal acc (c # cs) =
     (case digitVal c of None \<Rightarrow> None | Some d \<Rightarrow> digitsVal (10 * acc + d) cs)"

definition daysFromCivil :: "int \<Rightarrow> int \<Rightarrow> int \<Rightarrow> int" where
  "daysFromCivil y m d =
     (let y' = (if m \<le> 2 then y - 1 else y);
          era = y' div 400;
          yoe = y' - era * 400;
          doy = (153 * (if 2 < m then m - 3 else m + 9) + 2) div 5 + d - 1;
          doe = yoe * 365 + yoe div 4 - yoe div 100 + doy
      in era * 146097 + doe - 719468)"

definition civilFromDays :: "int \<Rightarrow> int \<times> int \<times> int" where
  "civilFromDays z =
     (let z' = z + 719468;
          era = z' div 146097;
          doe = z' - era * 146097;
          yoe = (doe - doe div 1460 + doe div 36524 - doe div 146096) div 365;
          doy = doe - (365 * yoe + yoe div 4 - yoe div 100);
          mp = (5 * doy + 2) div 153;
          d = doy - (153 * mp + 2) div 5 + 1;
          m = (if mp < 10 then mp + 3 else mp - 9);
          y = yoe + era * 400
      in (if m \<le> 2 then y + 1 else y, m, d))"

definition daysIn :: "int \<Rightarrow> int \<Rightarrow> int" where
  "daysIn y m =
     (if m = 2 then (if y mod 4 = 0 \<and> (y mod 100 \<noteq> 0 \<or> y mod 400 = 0) then 29 else 28)
      else if m = 4 \<or> m = 6 \<or> m = 9 \<or> m = 11 then 30 else 31)"

definition utcParse :: "string \<Rightarrow> err + Time" where
  "utcParse s =
     (if length s = 20 \<and> s ! 4 = CHR ''-'' \<and> s ! 7 = CHR ''-'' \<and> s ! 10 = CHR ''T''
         \<and> s ! 13 = CHR '':'' \<and> s ! 16 = CHR '':'' \<and> s ! 19 = CHR ''Z''
      then (case (digitsVal 0 (take 4 s), digitsVal 0 (take 2 (drop 5 s)),
                  digitsVal 0 (take 2 (drop 8 s)), digitsVal 0 (take 2 (drop 11 s)),
                  digitsVal 0 (take 2 (drop 14 s)), digitsVal 0 (take 2 (drop 17 s))) of
              (Some y, Some m, Some d, Some h, Some mi, Some sec) \<Rightarrow>
                if 1 \<le> m \<and> m \<le> 12 \<and> 1 \<le> d \<and> d \<le> daysIn y m \<and> h < 24 \<and> mi < 60 \<and> sec < 60
                then Inr (Time ((((daysFromCivil y m d * 24 + h) * 60 + mi) * 60 + sec)
                                * 1000000000) 0)
                else Inl (ParseError s)
            | _ \<Rightarrow> Inl (ParseError s))
      else Inl (ParseError s))"

definition digits2 :: "int \<Rightarrow> string" where
  "digits2 n = [char_of (48 + n div 10 mod 10), char_of (48 + n mod 10)]"

definition utcFormat :: "Time \<Rightarrow> string" where
  "utcFormat t =
     (case civilFromDays ((unixNano t div 1000000000 + zoneOffset t) div 86400) of
        (y, m, d) \<Rightarrow> digits2 (y div 100) @ digits2 y @ ''-'' @ digits2 m @ ''-'' @ digits2 d)"

text \<open>The world whose client answers \<open>client.Board(id)\<close> with \<open>boards id\<close>, at a fixed time.\<close>

definition utcWorld :: "(string \<Rightarrow> err + Board) \<Rightarrow> World" where
  "utcWorld boards =
     \<lparr> time_Parse = utcParse,
       time_Format = utcFormat,
       time_Now = Time 1717236000000000000 0,
       trello_NewAuthClient = (\<lambda>key token. Inr \<lparr> client_Board = boards \<rparr>) \<rparr>"

subsection \<open>The document an export prints\<close>

text \<open>
  The Markdown template, section by section, as a text computed from the data. A sequence
  that the client failed to deliver counts as empty here; the theorems use the template
  for runs in which it was delivered.
\<close>

definition answer :: "err + 'a list \<Rightarrow> 'a list" where
  "answer r = (case r of Inl _ \<Rightarrow> [] | Inr xs \<Rightarrow> xs)"

definition titleBlock :: "World \<Rightarrow> Card \<Rightarrow> string" where
  "titleBlock W crd =
     (case time_Parse W (card_DateLastActivity crd) of
        Inl _ \<Rightarrow> []
      | Inr t \<Rightarrow> ''#### **'' @ time_Format W t @ ''** ['' @ card_Name crd
                 @ '']('' @ card_Url crd @ '')\<newline>'')"

definition labelsText :: "Card \<Rightarrow> string" where
  "labelsText crd = concat (map (\<lambda>l. ''`'' @ label_Name l @ ''` '') (card_Labels crd))"

definition labelsAndMembersBlock :: "Card \<Rightarrow> string" where
  "labelsAndMembersBlock crd =
     ''##### '' @ labelsText crd @ ''- **[''
     @ strings_Join (map member_FullName (answer (card_Members crd))) '', '' @ '']**\<newline>''"

definition descriptionBlock :: "Card \<Rightarrow> string" where
  "descriptionBlock crd = card_Desc crd @ ''\<newline>\<newline>''"

definition attachmentText :: "Attachment \<Rightarrow> string" where
  "attachmentText a =
     ''['' @ attachment_Name a @ '']('' @ attachment_Url a @ '')\<newline>''
     @ ''![]('' @ attachment_Url a @ '')\<newline>\<newline>''"

definition attachmentsBlock :: "Card \<Rightarrow> string" where
  "attachmentsBlock crd = concat (map attachmentText (answer (card_Attachments crd)))"

definition checkItemLine :: "CheckItem \<Rightarrow> string" where
  "checkItemLine checkItem =
     (if checkItem_State checkItem = ''complete'' then ''- [x] '' else ''- [ ] '')
     @ checkItem_Name checkItem @ ''\<newline>''"

definition checklistText :: "Checklist \<Rightarrow> string" where
  "checklistText cl =
     checklist_Name cl @ ''\<newline>'' @ concat (map checkItemLine (checklist_CheckItems cl))
     @ ''\<newline>''"

definition checklistsBlock :: "Card \<Rightarrow> string" where
  "checklistsBlock crd = concat (map checklistText (answer (card_Checklists crd)))"

text \<open>The lines of a text: the pieces between its newline characters.\<close>

fun splitLines :: "string \<Rightarrow> string list" where
  "splitLines [] = [[]]"
| "splitLines (c # cs) =
     (if c = CHR ''\<newline>'' then [] # splitLines cs
      else (case splitLines cs of [] \<Rightarrow> [[c]] | l # ls \<Rightarrow> (c # l) # ls))"

definition quoted :: "string \<Rightarrow> string" where
  "quoted body = concat (map (\<lambda>l. ''> '' @ l @ ''\<newline>'') (splitLines body))"

definition commentText :: "World \<Rightarrow> Action \<Rightarrow> string" where
  "commentText W a =
     (case time_Parse W (action_Date a) of
        Inl _ \<Rightarrow> []
      | Inr t \<Rightarrow> ''> **'' @ time_Format W t @ ''** - **''
                 @ member_FullName (action_MemberCreator a) @ '':**\<newline>''
                 @ quoted (action_Data_Text a) @ ''\<newline>'')"

definition commentsOf :: "World \<Rightarrow> Card \<Rightarrow> Action list" where
  "commentsOf W crd = (case getCardComments W crd of Ok cs \<Rightarrow> cs | _ \<Rightarrow> [])"

definition commentsBlock :: "World \<Rightarrow> Card \<Rightarrow> string" where
  "commentsBlock W crd = concat (map (commentText W) (commentsOf W crd))"

definition cardSections :: "World \<Rightarrow> Context \<Rightarrow> Card \<Rightarrow> string" where
  "cardSections W c crd =
     titleBlock W crd
     @ (if Bool_show_labels_and_members c then labelsAndMembersBlock crd else [])
     @ (if Bool_show_description c then descriptionBlock crd else [])
     @ (if Bool_show_attachments c then attachmentsBlock crd else [])
     @ (if Bool_show_checklists c then checklistsBlock crd else [])
     @ (if Bool_show_comments c then commentsBlock W crd else [])"

definition cardsOf :: "World \<Rightarrow> Context \<Rightarrow> Board \<Rightarrow> Card list" where
  "cardsOf W c board =
     (case getList board (String_list_filter c) of
        Ok l \<Rightarrow> (case getCards W l of Ok cs \<Rightarrow> cs | _ \<Rightarrow> [])
      | _ \<Rightarrow> [])"

definition boardSection :: "World \<Rightarrow> Context \<Rightarrow> Board \<Rightarrow> string" where
  "boardSection W c board =
     ''### '' @ board_Name board @ ''\<newline>'' @ concat (map (cardSections W c) (cardsOf W c board))"

subsection \<open>Order of timestamps, and inputs without a fault\<close>

definition parses :: "World \<Rightarrow> string \<Rightarrow> bool" where
  "parses W s = (case time_Parse W s of Inl _ \<Rightarrow> False | Inr _ \<Rightarrow> True)"

text \<open>Both texts are timestamps, and the second is not before the first.\<close>

definition stampLe :: "World \<Rightarrow> string \<Rightarrow> string \<Rightarrow> bool" where
  "stampLe W s s' =
     (case time_Parse W s of
        Inl _ \<Rightarrow> False
      | Inr t \<Rightarrow> (case time_Parse W s' of Inl _ \<Rightarrow> False | Inr t' \<Rightarrow> \<not> Before t' t))"

definition answered :: "err + 'a \<Rightarrow> bool" where
  "answered r = (case r of Inl _ \<Rightarrow> False | Inr _ \<Rightarrow> True)"

definition commentActions :: "Card \<Rightarrow> Action list" where
  "commentActions crd =
     filter (\<lambda>a. action_Type a = ''commentCard'') (answer (card_Actions crd))"

text \<open>
  A card, a board, a run without a fault: every sequence the run asks for is delivered, the
  named list exists, and every timestamp the run reads is well-formed.
\<close>

definition cardClean :: "World \<Rightarrow> Context \<Rightarrow> Card \<Rightarrow> bool" where
  "cardClean W c crd \<longleftrightarrow>
     parses W (card_DateLastActivity crd)
     \<and> (Bool_show_labels_and_members c \<longrightarrow> answered (card_Members crd))
     \<and> (Bool_show_attachments c \<longrightarrow> answered (card_Attachments crd))
     \<and> (Bool_show_checklists c \<longrightarrow> answered (card_Checklists crd))
     \<and> (Bool_show_comments c \<longrightarrow>
          answered (card_Actions crd)
          \<and> list_all (\<lambda>a. parses W (action_Date a)) (commentActions crd))"

definition exportedList :: "Context \<Rightarrow> Board \<Rightarrow> List option" where
  "exportedList c board =
     (case board_Lists board of
        Inl _ \<Rightarrow> None
      | Inr ls \<Rightarrow> List.find (\<lambda>l. list_Name l = String_list_filter c) ls)"

definition boardClean :: "World \<Rightarrow> Context \<Rightarrow> Board \<Rightarrow> bool" where
  "boardClean W c board =
     (case exportedList c board of
        None \<Rightarrow> False
      | Some l \<Rightarrow>
          (case list_Cards l of Inl _ \<Rightarrow> False | Inr cards \<Rightarrow> list_all (cardClean W c) cards))"

definition exportClean :: "World \<Rightarrow> Context \<Rightarrow> bool" where
  "exportClean W c =
     (case trello_NewAuthClient W (GlobalString_key c) (GlobalString_token c) of
        Inl _ \<Rightarrow> False
      | Inr client \<Rightarrow>
          list_all (\<lambda>boardId. case client_Board client boardId of
                                Inl _ \<Rightarrow> False
                              | Inr board \<Rightarrow> boardClean W c board)
            (StringSlice_board_id c))"

text \<open>
  A fault a sort comparator meets: a sequence of two or more cards, or of two or more
  comments, with a malformed timestamp in it.
\<close>

definition cardsSortFault :: "World \<Rightarrow> Card list \<Rightarrow> bool" where
  "cardsSortFault W cards \<longleftrightarrow>
     2 \<le> length cards \<and> \<not> list_all (\<lambda>crd. parses W (card_DateLastActivity crd)) cards"

definition commentsSortFault :: "World \<Rightarrow> Card \<Rightarrow> bool" where
  "commentsSortFault W crd \<longleftrightarrow>
     2 \<le> length (commentActions crd)
     \<and> \<not> list_all (\<lambda>a. parses W (action_Date a)) (commentActions crd)"

definition boardSortFault :: "World \<Rightarrow> Context \<Rightarrow> Board \<Rightarrow> bool" where
  "boardSortFault W c board =
     (case exportedList c board of
        None \<Rightarrow> False
      | Some l \<Rightarrow>
          (case list_Cards l of
             Inl _ \<Rightarrow> False
           | Inr cards \<Rightarrow>
               cardsSortFault W cards
               \<or> (Bool_show_comments c \<and> list_ex (commentsSortFault W) cards)))"

definition exportSortFault :: "World \<Rightarrow> Context \<Rightarrow> bool" where
  "exportSortFault W c =
     (case trello_NewAuthClient W (GlobalString_key c) (GlobalString_token c) of
        Inl _ \<Rightarrow> False
      | Inr client \<Rightarrow>
          list_ex (\<lambda>boardId. case client_Board client boardId of
                               Inl _ \<Rightarrow> False
                             | Inr board \<Rightarrow> boardSortFault W c board)
            (StringSlice_board_id c))"

subsection \<open>The end-to-end scenario\<close>

definition fixBugCard :: "string \<Rightarrow> Card" where
  "fixBugCard url =
     \<lparr> card_Name = ''Fix bug'',
       card_Url = url,
       card_Desc = ''Fixed it'',
       card_DateLastActivity = ''2024-01-05T10:00:00Z'',
       card_Labels = [],
       card_Members = Inr [],
       card_Checklists =
         Inr [\<lparr> checklist_Name = ''QA'',
                checklist_CheckItems =
                  [\<lparr> checkItem_State = ''complete'', checkItem_Name = ''Test'' \<rparr>,
                   \<lparr> checkItem_State = ''incomplete'', checkItem_Name = ''Deploy'' \<rparr>] \<rparr>],
       card_Actions = Inr [],
       card_Attachments = Inr [] \<rparr>"

definition boardB1 :: "string \<Rightarrow> Board" where
  "boardB1 url =
     \<lparr> board_Name = ''B1'',
       board_Lists = Inr [\<lparr> list_Name = ''Done'', list_Cards = Inr [fixBugCard url] \<rparr>] \<rparr>"

definition allFlags :: "string list \<Rightarrow> Context" where
  "allFlags boardIds =
     \<lparr> GlobalString_key = ''key'',
       GlobalString_token = ''token'',
       StringSlice_board_id = boardIds,
       String_list_filter = ''Done'',
       Bool_show_labels_and_members = True,
       Bool_show_description = True,
       Bool_show_checklists = True,
       Bool_show_comments = True,
       Bool_show_attachments = True \<rparr>"

subsection \<open>A run as a script\<close>

text \<open>
  What a run is to do, written from the data alone. A script is the sequence of what a run
  does to its output, in order: a text it prints, or the failure that ends it, which is an
  error returned as a value or a panic. A script prints the texts that come before its
  first failure and nothing else, and it ends with that failure, or without an error when
  it has none.
\<close>

datatype step = Emit string | Return err | Panicked err

fun isEmit :: "step \<Rightarrow> bool" where
  "isEmit (Emit s) = True"
| "isEmit (Return e) = False"
| "isEmit (Panicked e) = False"

fun textOf :: "step \<Rightarrow> string" where
  "textOf (Emit s) = s"
| "textOf (Return e) = []"
| "textOf (Panicked e) = []"

definition emitted :: "step list \<Rightarrow> string" where
  "emitted steps = concat (map textOf (takeWhile isEmit steps))"

definition outcome :: "step list \<Rightarrow> unit result" where
  "outcome steps =
     (case dropWhile isEmit steps of
        [] \<Rightarrow> Ok ()
      | Emit s # rest \<Rightarrow> Ok ()
      | Return e # rest \<Rightarrow> Err e
      | Panicked e # rest \<Rightarrow> Panic e)"

definition perform :: "step list \<Rightarrow> unit io" where
  "perform steps = (emitted steps, outcome steps)"

text \<open>
  What the program asks of \<open>sort.Slice\<close> with a comparator that parses the timestamps of the
  two elements, panics with the parse error when one is malformed and compares with
  \<open>Before\<close> otherwise: a sequence of at most one element comes back as it is (nothing is
  compared); when every timestamp parses the result is the same elements in ascending
  order; when there are two or more elements and a malformed timestamp among them, the
  sort panics with the parse error of one of them. The order of elements with equal
  timestamps is left open, and so is which malformed timestamp is met first.
\<close>

definition sortsBy :: "World \<Rightarrow> ('a \<Rightarrow> string) \<Rightarrow> ('a list \<Rightarrow> 'a list result) \<Rightarrow> bool" where
  "sortsBy W stamp srt \<longleftrightarrow>
     (\<forall>xs. (length xs \<le> 1 \<longrightarrow> srt xs = Ok xs)
        \<and> (list_all (\<lambda>x. parses W (stamp x)) xs \<longrightarrow>
              (\<exists>ys. srt xs = Ok ys \<and> mset ys = mset xs
                 \<and> sorted_wrt (\<lambda>a b. stampLe W (stamp a) (stamp b)) ys))
        \<and> (2 \<le> length xs \<and> \<not> list_all (\<lambda>x. parses W (stamp x)) xs \<longrightarrow>
              (\<exists>x \<in> set xs. \<exists>e. time_Parse W (stamp x) = Inl e \<and> srt xs = Panic e)))"

text \<open>
  The script of a card: the title, then each of the five other sections if its flag is
  set, in the fixed order. A section whose data the client fails to deliver ends the run
  with the client's error, after what the section prints before asking for it.
\<close>

definition titleSteps :: "World \<Rightarrow> Card \<Rightarrow> step list" where
  "titleSteps W crd =
     (case time_Parse W (card_DateLastActivity crd) of
        Inl e \<Rightarrow> [Return e]
      | Inr t \<Rightarrow> [Emit (''#### **'' @ time_Format W t @ ''** ['' @ card_Name crd
                        @ '']('' @ card_Url crd @ '')\<newline>'')])"

definition labelsAndMembersSteps :: "Card \<Rightarrow> step list" where
  "labelsAndMembersSteps crd =
     Emit ''##### ''
     # map (\<lambda>l. Emit (''`'' @ label_Name l @ ''` '')) (card_Labels crd)
     @ (case card_Members crd of
          Inl e \<Rightarrow> [Return e]
        | Inr members \<Rightarrow>
            [Emit (''- **['' @ strings_Join (map member_FullName members) '', ''
                   @ '']**\<newline>'')])"

definition descriptionSteps :: "Card \<Rightarrow> step list" where
  "descriptionSteps crd = [Emit (card_Desc crd @ ''\<newline>\<newline>'')]"

definition attachmentsSteps :: "Card \<Rightarrow> step list" where
  "attachmentsSteps crd =
     (case card_Attachments crd of
        Inl e \<Rightarrow> [Return e]
      | Inr attachments \<Rightarrow> map (\<lambda>a. Emit (attachmentText a)) attachments)"

definition checklistsSteps :: "Card \<Rightarrow> step list" where
  "checklistsSteps crd =
     (case card_Checklists crd of
        Inl e \<Rightarrow> [Return e]
      | Inr checklists \<Rightarrow> map (\<lambda>cl. Emit (checklistText cl)) checklists)"

definition commentSteps :: "World \<Rightarrow> Action \<Rightarrow> step list" where
  "commentSteps W a =
     (case time_Parse W (action_Date a) of
        Inl e \<Rightarrow> [Return e]
      | Inr t \<Rightarrow> [Emit (''> **'' @ time_Format W t @ ''** - **''
                        @ member_FullName (action_MemberCreator a) @ '':**\<newline>''
                        @ quoted (action_Data_Text a) @ ''\<newline>'')])"

text \<open>
  The comments of a card are its delivered actions of type \<open>commentCard\<close>, and no other
  action, in the order \<open>srtA\<close> puts them in.
\<close>

definition commentsSteps :: "World \<Rightarrow> (Action list \<Rightarrow> Action list result) \<Rightarrow> Card \<Rightarrow> step list" where
  "commentsSteps W srtA crd =
     (case card_Actions crd of
        Inl e \<Rightarrow> [Return e]
      | Inr actions \<Rightarrow>
          (case srtA (filter (\<lambda>a. action_Type a = ''commentCard'') actions) of
             Ok comments \<Rightarrow> concat (map (commentSteps W) comments)
           | Err e \<Rightarrow> [Return e]
           | Panic e \<Rightarrow> [Panicked e]))"

definition cardScript ::
  "World \<Rightarrow> Context \<Rightarrow> (Action list \<Rightarrow> Action list result) \<Rightarrow> Card \<Rightarrow> step list" where
  "cardScript W c srtA crd =
     titleSteps W crd
     @ (if Bool_show_labels_and_members c then labelsAndMembersSteps crd else [])
     @ (if Bool_show_description c then descriptionSteps crd else [])
     @ (if Bool_show_attachments c then attachmentsSteps crd else [])
     @ (if Bool_show_checklists c then checklistsSteps crd else [])
     @ (if Bool_show_comments c then commentsSteps W srtA crd else [])"

text \<open>
  The script of a board: its header, then the cards of the first list named as the filter,
  in the order \<open>srtC\<close> puts them in.
\<close>

definition boardScript ::
  "World \<Rightarrow> Context \<Rightarrow> (Card list \<Rightarrow> Card list result)
     \<Rightarrow> (Action list \<Rightarrow> Action list result) \<Rightarrow> Board \<Rightarrow> step list" where
  "boardScript W c srtC srtA board =
     Emit (''### '' @ board_Name board @ ''\<newline>'')
     # (case board_Lists board of
          Inl e \<Rightarrow> [Return e]
        | Inr ls \<Rightarrow>
            (case List.find (\<lambda>l. list_Name l = String_list_filter c) ls of
               None \<Rightarrow> [Return (ErrorsNew ''no matching list found'')]
             | Some l \<Rightarrow>
                 (case list_Cards l of
                    Inl e \<Rightarrow> [Return e]
                  | Inr cards \<Rightarrow>
                      (case srtC cards of
                         Ok sorted_cards \<Rightarrow> concat (map (cardScript W c srtA) sorted_cards)
                       | Err e \<Rightarrow> [Return e]
                       | Panic e \<Rightarrow> [Panicked e]))))"

fun firstError :: "(err + 'a) list \<Rightarrow> err option" where
  "firstError [] = None"
| "firstError (Inl e # rs) = Some e"
| "firstError (Inr a # rs) = firstError rs"

fun answers :: "(err + 'a) list \<Rightarrow> 'a list" where
  "answers [] = []"
| "answers (Inl e # rs) = answers rs"
| "answers (Inr a # rs) = a # answers rs"

text \<open>
  The script of a run: nothing but the error when the client cannot be constructed;
  otherwise the date header, then, when every board identifier is answered with a board,
  the boards in the order of the identifiers, and else the error of the first identifier
  that is not.
\<close>

definition documentScript ::
  "World \<Rightarrow> Context \<Rightarrow> (Card list \<Rightarrow> Card list result)
     \<Rightarrow> (Action list \<Rightarrow> Action list result) \<Rightarrow> step list" where
  "documentScript W c srtC srtA =
     (case trello_NewAuthClient W (GlobalString_key c) (GlobalString_token c) of
        Inl e \<Rightarrow> [Return e]
      | Inr client \<Rightarrow>
          Emit (''## '' @ time_Format W (time_Now W) @ ''\<newline>'')
          # (case firstError (map (client_Board client) (StringSlice_board_id c)) of
               Some e \<Rightarrow> [Return e]
             | None \<Rightarrow>
                 concat (map (boardScript W c srtC srtA)
                           (answers (map (client_Board client) (StringSlice_board_id c))))))"

text \<open>
  A card at which the run panics while sorting the comments: the comments are shown,
  everything the card prints before them is delivered, and the comment sort meets a
  malformed date. A board at which the run panics: the card sort meets a malformed
  timestamp, or every card is without a fault or panics at its comments, and one does.
\<close>

definition panicsAtComments :: "World \<Rightarrow> Context \<Rightarrow> Card \<Rightarrow> bool" where
  "panicsAtComments W c crd \<longleftrightarrow>
     Bool_show_comments c
     \<and> parses W (card_DateLastActivity crd)
     \<and> (Bool_show_labels_and_members c \<longrightarrow> answered (card_Members crd))
     \<and> (Bool_show_attachments c \<longrightarrow> answered (card_Attachments crd))
     \<and> (Bool_show_checklists c \<longrightarrow> answered (card_Checklists crd))
     \<and> commentsSortFault W crd"

definition boardPanics :: "World \<Rightarrow> Context \<Rightarrow> Board \<Rightarrow> bool" where
  "boardPanics W c board =
     (case exportedList c board of
        None \<Rightarrow> False
      | Some l \<Rightarrow>
          (case list_Cards l of
             Inl _ \<Rightarrow> False
           | Inr cards \<Rightarrow>
               cardsSortFault W cards
               \<or> (list_all (\<lambda>crd. cardClean W c crd \<or> panicsAtComments W c crd) cards
                  \<and> list_ex (panicsAtComments W c) cards)))"

subsection \<open>Sample inputs\<close>

definition stampedCard :: "string \<Rightarrow> string \<Rightarrow> Card" where
  "stampedCard name date =
     \<lparr> card_Name = name,
       card_Url = ''u'',
       card_Desc = [],
       card_DateLastActivity = date,
       card_Labels = [],
       card_Members = Inr [],
       card_Checklists = Inr [],
       card_Actions = Inr [],
       card_Attachments = Inr [] \<rparr>"

definition sampleAction :: "string \<Rightarrow> string \<Rightarrow> string \<Rightarrow> Action" where
  "sampleAction ty date body =
     \<lparr> action_Type = ty,
       action_Date = date,
       action_MemberCreator = \<lparr> member_FullName = ''Ann'' \<rparr>,
       action_Data_Text = body \<rparr>"

definition twoDoneLists :: "List list" where
  "twoDoneLists =
     [\<lparr> list_Name = ''Todo'', list_Cards = Inr [] \<rparr>,
      \<lparr> list_Name = ''Done'', list_Cards = Inr [stampedCard ''first'' ''2024-01-05T10:00:00Z''] \<rparr>,
      \<lparr> list_Name = ''Done'', list_Cards = Inr [] \<rparr>]"

definition twoDoneBoard :: Board where
  "twoDoneBoard = \<lparr> board_Name = ''B2'', board_Lists = Inr twoDoneLists \<rparr>"

definition threeCards :: "Card list" where
  "threeCards =
     [stampedCard ''mar'' ''2024-03-01T00:00:00Z'',
      stampedCard ''jan'' ''2024-01-05T10:00:00Z'',
      stampedCard ''feb'' ''2024-02-01T12:30:00Z'']"

definition unsortedList :: List where
  "unsortedList = \<lparr> list_Name = ''Done'', list_Cards = Inr threeCards \<rparr>"

definition mixedActions :: "Action list" where
  "mixedActions =
     [sampleAction ''commentCard'' ''2024-02-01T12:30:00Z'' ''second'',
      sampleAction ''updateCard'' ''2024-01-01T00:00:00Z'' ''moved'',
      sampleAction ''commentCard'' ''2024-01-05T10:00:00Z'' ''first'']"

definition commentedCard :: Card where
  "commentedCard =
     (stampedCard ''talk'' ''2024-03-01T00:00:00Z'') \<lparr> card_Actions := Inr mixedActions \<rparr>"

definition labelledCard :: Card where
  "labelledCard =
     (stampedCard ''fix'' ''2024-01-05T10:00:00Z'')
       \<lparr> card_Labels := [\<lparr> label_Name = ''bug'' \<rparr>, \<lparr> label_Name = ''ui'' \<rparr>],
         card_Members := Inl (ApiError ''timeout'') \<rparr>"

definition brokenBoard :: Board where
  "brokenBoard =
     \<lparr> board_Name = ''B3'',
       board_Lists =
         Inr [\<lparr> list_Name = ''Done'',
                list_Cards = Inr [stampedCard ''good'' ''2024-01-05T10:00:00Z'',
                                  stampedCard ''bad'' ''yesterday''] \<rparr>] \<rparr>"

definition titlesOnly :: "string list \<Rightarrow> Context" where
  "titlesOnly boardIds =
     \<lparr> GlobalString_key = ''key'',
       GlobalString_token = ''token'',
       StringSlice_board_id = boardIds,
       String_list_filter = ''Done'',
       Bool_show_labels_and_members = False,
       Bool_show_description = False,
       Bool_show_checklists = False,
       Bool_show_comments = False,
       Bool_show_attachments = False \<rparr>"

definition unsortedBoard :: Board where
  "unsortedBoard = \<lparr> board_Name = ''B4'', board_Lists = Inr [unsortedList] \<rparr>"

definition brokenWorld :: World where
  "brokenWorld = utcWorld (\<lambda>boardId. Inr brokenBoard)"

definition offlineWorld :: World where
  "offlineWorld = utcWorld (\<lambda>boardId. Inl (ApiError ''board not found''))"

definition halfBoard :: Board where
  "halfBoard =
     \<lparr> board_Name = ''B5'',
       board_Lists = Inr [\<lparr> list_Name = ''Done'', list_Cards = Inr [labelledCard] \<rparr>] \<rparr>"

definition twoBoardsWorld :: World where
  "twoBoardsWorld =
     utcWorld (\<lambda>boardId. if boardId = ''b1'' then Inr (boardB1 ''u'') else Inr halfBoard)"

definition noDescription :: "string list \<Rightarrow> Context" where
  "noDescription boardIds =
     \<lparr> GlobalString_key = ''key'',
       GlobalString_token = ''token'',
       StringSlice_board_id = boardIds,
       String_list_filter = ''Done'',
       Bool_show_labels_and_members = True,
       Bool_show_description = False,
       Bool_show_checklists = True,
       Bool_show_comments = True,
       Bool_show_attachments = True \<rparr>"

definition commentsOnly :: "string list \<Rightarrow> Context" where
  "commentsOnly boardIds =
     \<lparr> GlobalString_key = ''key'',
       GlobalString_token = ''token'',
       StringSlice_board_id = boardIds,
       String_list_filter = ''Done'',
       Bool_show_labels_and_members = False,
       Bool_show_description = False,
       Bool_show_checklists = False,
       Bool_show_comments = True,
       Bool_show_attachments = False \<rparr>"

definition quarrelCard :: Card where
  "quarrelCard =
     (stampedCard ''quarrel'' ''2024-03-01T00:00:00Z'')
       \<lparr> card_Actions :=
           Inr [sampleAction ''commentCard'' ''2024-01-05T10:00:00Z'' ''yes'',
                sampleAction ''commentCard'' ''yesterday'' ''no''] \<rparr>"

section \<open>Properties\<close>

subsection \<open>Sequencing and loops\<close>

lemma andThen_Ok [simp]: "andThen (out, Ok a) k = (out @ fst (k a), snd (k a))"
  by (simp add: andThen_def split: prod.split)

lemma andThen_Err [simp]: "andThen (out, Err e) k = (out, Err e)"
  by (simp add: andThen_def)

lemma andThen_Panic [simp]: "andThen (out, Panic e) k = (out, Panic e)"
  by (simp add: andThen_def)

lemma andThen_Printf [simp]: "andThen (Printf s) k = (s @ fst (k ()), snd (k ()))"
  by (simp add: Printf_def)

lemma andThen_skip [simp]: "andThen skip k = k ()"
  by (simp add: skip_def)

lemma andThen_silent_Ok [simp]: "andThen (silent (Ok a)) k = k a"
  by (simp add: silent_def)

lemma andThen_silent_Err [simp]: "andThen (silent (Err e)) k = ([], Err e)"
  by (simp add: silent_def)

lemma andThen_silent_Panic [simp]: "andThen (silent (Panic e)) k = ([], Panic e)"
  by (simp add: silent_def)

lemma snd_andThen_Ok:
  "snd (andThen m k) = Ok b \<longleftrightarrow> (\<exists>a. snd m = Ok a \<and> snd (k a) = Ok b)"
  by (cases m; cases "snd m") (auto simp: andThen_def split: prod.splits)

lemma forEach_Ok_iff:
  "snd (forEach body xs) = Ok () \<longleftrightarrow> list_all (\<lambda>x. snd (body x) = Ok ()) xs"
  by (induction xs) (auto simp: skip_def snd_andThen_Ok)

lemma forEach_Ok_out:
  "snd (forEach body xs) = Ok () \<Longrightarrow> fst (forEach body xs) = concat (map (\<lambda>x. fst (body x)) xs)"
  by (induction xs) (auto simp: skip_def andThen_def split: prod.splits result.splits)

lemma forEach_total:
  assumes "\<And>x. snd (body x) = Ok ()"
  shows "forEach body xs = (concat (map (\<lambda>x. fst (body x)) xs), Ok ())"
proof -
  have ok: "snd (forEach body xs) = Ok ()"
    by (simp add: forEach_Ok_iff assms list_all_iff)
  from forEach_Ok_out[OF ok] ok show ?thesis
    by (simp add: prod_eq_iff)
qed

lemma forEach_abort:
  "snd (forEach body xs) \<noteq> Ok () \<Longrightarrow> forEach body (xs @ ys) = forEach body xs"
  by (induction xs) (auto simp: skip_def andThen_def split: prod.splits result.splits)

subsection \<open>Resolving the list to export\<close>

lemma firstNamed_none:
  "list_all (\<lambda>l. list_Name l \<noteq> f) ls \<Longrightarrow>
   firstNamed ls f = Err (ErrorsNew ''no matching list found'')"
  by (induction ls) auto

lemma firstNamed_first:
  "list_all (\<lambda>l. list_Name l \<noteq> f) pre \<Longrightarrow> list_Name l = f \<Longrightarrow>
   firstNamed (pre @ l # post) f = Ok l"
  by (induction pre) auto

lemma firstNamed_find:
  "firstNamed ls f =
     (case List.find (\<lambda>l. list_Name l = f) ls of
        None \<Rightarrow> Err (ErrorsNew ''no matching list found'')
      | Some l \<Rightarrow> Ok l)"
  by (induction ls) auto

text \<open>
  C2. When the board's lists are delivered, \<open>getList\<close> scans them in the order delivered:
  if no list is named exactly as the filter, it fails with the error
  "no matching list found"; otherwise it returns the first list so named, whatever
  follows it (a second list of the same name included). Names are compared as texts, so
  the match is case-sensitive.
\<close>

theorem getList_first_match:
  assumes "board_Lists board = Inr ls"
  shows "((\<forall>l \<in> set ls. list_Name l \<noteq> listFilter) \<longrightarrow>
            getList board listFilter = Err (ErrorsNew ''no matching list found''))
       \<and> (\<forall>pre l post. ls = pre @ l # post \<and> list_Name l = listFilter
              \<and> (\<forall>p \<in> set pre. list_Name p \<noteq> listFilter)
            \<longrightarrow> getList board listFilter = Ok l)"
  using assms by (auto simp: getList_def firstNamed_none firstNamed_first list_all_iff)

theorem getList_first_match_witness:
  "getList twoDoneBoard ''done'' = Err (ErrorsNew ''no matching list found'')
   \<and> getList twoDoneBoard ''Done''
       = Ok \<lparr> list_Name = ''Done'',
              list_Cards = Inr [stampedCard ''first'' ''2024-01-05T10:00:00Z''] \<rparr>"
proof
  have ls: "board_Lists twoDoneBoard = Inr twoDoneLists"
    by (simp add: twoDoneBoard_def)
  have none: "\<forall>l \<in> set twoDoneLists. list_Name l \<noteq> ''done''"
    by (simp add: twoDoneLists_def)
  from getList_first_match[OF ls, of "''done''"] none
  show "getList twoDoneBoard ''done'' = Err (ErrorsNew ''no matching list found'')"
    by blast
  let ?l = "\<lparr> list_Name = ''Done'',
              list_Cards = Inr [stampedCard ''first'' ''2024-01-05T10:00:00Z''] \<rparr>"
  have split: "twoDoneLists
      = [\<lparr> list_Name = ''Todo'', list_Cards = Inr [] \<rparr>] @ ?l
        # [\<lparr> list_Name = ''Done'', list_Cards = Inr [] \<rparr>]"
    by (simp add: twoDoneLists_def)
  have pre: "\<forall>p \<in> set [\<lparr> list_Name = ''Todo'', list_Cards = Inr [] \<rparr>]. list_Name p \<noteq> ''Done''"
    by simp
  have name: "list_Name ?l = ''Done''"
    by simp
  from getList_first_match[OF ls, of "''Done''"] split pre name
  show "getList twoDoneBoard ''Done'' = Ok ?l"
    by blast
qed

subsection \<open>Checklists\<close>

lemma printCheckItem_eq: "printCheckItem i = (checkItemLine i, Ok ())"
  by (simp add: printCheckItem_def checkItemLine_def Printf_def)

lemma printCardChecklist_eq: "printCardChecklist cl = (checklistText cl, Ok ())"
  by (simp add: printCardChecklist_def checklistText_def
      forEach_total[where body = printCheckItem] printCheckItem_eq Printf_def)

text \<open>
  C5. A rendered checklist is its name on a line, one line per check item, and an empty
  line. The line of a check item is \<open>- [x] name\<close> if and only if its state is the text
  \<open>complete\<close>, and \<open>- [ ] name\<close> if and only if it is any other text.
\<close>

theorem checklist_rendering:
  "printCardChecklist checklist =
     (checklist_Name checklist @ ''\<newline>''
        @ concat (map checkItemLine (checklist_CheckItems checklist)) @ ''\<newline>'', Ok ())
   \<and> (checkItemLine checkItem = ''- [x] '' @ checkItem_Name checkItem @ ''\<newline>''
        \<longleftrightarrow> checkItem_State checkItem = ''complete'')
   \<and> (checkItemLine checkItem = ''- [ ] '' @ checkItem_Name checkItem @ ''\<newline>''
        \<longleftrightarrow> checkItem_State checkItem \<noteq> ''complete'')"
  by (simp add: printCardChecklist_eq checklistText_def checkItemLine_def)

theorem checklist_rendering_witness:
  "printCardChecklist
     \<lparr> checklist_Name = ''QA'',
       checklist_CheckItems =
         [\<lparr> checkItem_State = ''complete'', checkItem_Name = ''Test'' \<rparr>,
          \<lparr> checkItem_State = ''Complete'', checkItem_Name = ''Deploy'' \<rparr>] \<rparr>
   = (''QA\<newline>- [x] Test\<newline>- [ ] Deploy\<newline>\<newline>'', Ok ())"
  using checklist_rendering[of
      "\<lparr> checklist_Name = ''QA'',
         checklist_CheckItems =
           [\<lparr> checkItem_State = ''complete'', checkItem_Name = ''Test'' \<rparr>,
            \<lparr> checkItem_State = ''Complete'', checkItem_Name = ''Deploy'' \<rparr>] \<rparr>"]
  by (simp add: checkItemLine_def)

subsection \<open>An export of no board\<close>

lemma utcFormat_now: "utcFormat (Time 1717236000000000000 0) = ''2024-06-01''"
  by code_simp

text \<open>
  C10. When the client is constructed and the sequence of board identifiers is empty, the
  run returns without an error and prints exactly the date header \<open>## {today}\<close> and a
  newline: no board header, no card.
\<close>

theorem exportBoards_no_boards:
  assumes "trello_NewAuthClient W (GlobalString_key c) (GlobalString_token c) = Inr client"
      and "StringSlice_board_id c = []"
  shows "exportBoards W c = (''## '' @ time_Format W (time_Now W) @ ''\<newline>'', Ok ())"
  using assms by (simp add: exportBoards_def fetched_def printDate_def skip_def)

theorem exportBoards_no_boards_witness:
  "exportBoards (utcWorld (\<lambda>boardId. Inl (ApiError ''board not found''))) (allFlags [])
   = (''## 2024-06-01\<newline>'', Ok ())"
proof -
  let ?W = "utcWorld (\<lambda>boardId. Inl (ApiError ''board not found''))"
  have client: "trello_NewAuthClient ?W (GlobalString_key (allFlags []))
                  (GlobalString_token (allFlags []))
                = Inr \<lparr> client_Board = (\<lambda>boardId. Inl (ApiError ''board not found'')) \<rparr>"
    by (simp add: utcWorld_def)
  have ids: "StringSlice_board_id (allFlags []) = []"
    by (simp add: allFlags_def)
  from exportBoards_no_boards[OF client ids] show ?thesis
    by (simp add: utcWorld_def utcFormat_now)
qed

subsection \<open>Sorting by timestamp\<close>

text \<open>
  The two comparators of the program have one shape: parse the timestamp of the first
  element, then that of the second, panic on a malformed one, else compare with \<open>Before\<close>.
  The lemmas are stated for any comparator of that shape, \<open>stamp\<close> giving the timestamp
  text of an element.
\<close>

lemma stampLe_trans: "stampLe W a b \<Longrightarrow> stampLe W b d \<Longrightarrow> stampLe W a d"
  by (auto simp: stampLe_def Before_def split: sum.splits)

lemma stampLe_parses: "stampLe W a b \<Longrightarrow> parses W a \<and> parses W b"
  by (auto simp: stampLe_def parses_def split: sum.splits)

lemma siftLeft_mset:
  "siftLeft lessFn x left = Ok left' \<Longrightarrow> mset left' = add_mset x (mset left)"
proof (induction left arbitrary: left')
  case Nil
  then show ?case by auto
next
  case (Cons y left)
  then show ?case
    by (auto split: result.splits bool.splits)
qed

lemma shape_Ok:
  assumes shape: "\<And>x y. lessFn x y =
            (case time_Parse W (stamp x) of
               Inl e \<Rightarrow> Panic e
             | Inr a \<Rightarrow> (case time_Parse W (stamp y) of
                           Inl e \<Rightarrow> Panic e
                         | Inr b \<Rightarrow> Ok (Before a b)))"
      and "lessFn x y = Ok b"
  shows "parses W (stamp x) \<and> parses W (stamp y)
         \<and> (if b then stampLe W (stamp x) (stamp y) else stampLe W (stamp y) (stamp x))"
  using shape[of x y] assms(2)
  by (auto simp: parses_def stampLe_def Before_def split: sum.splits)

lemma shape_not_Err:
  assumes shape: "\<And>x y. lessFn x y =
            (case time_Parse W (stamp x) of
               Inl e \<Rightarrow> Panic e
             | Inr a \<Rightarrow> (case time_Parse W (stamp y) of
                           Inl e \<Rightarrow> Panic e
                         | Inr b \<Rightarrow> Ok (Before a b)))"
  shows "lessFn x y \<noteq> Err e"
  using shape[of x y] by (auto split: sum.splits)

lemma shape_total:
  assumes shape: "\<And>x y. lessFn x y =
            (case time_Parse W (stamp x) of
               Inl e \<Rightarrow> Panic e
             | Inr a \<Rightarrow> (case time_Parse W (stamp y) of
                           Inl e \<Rightarrow> Panic e
                         | Inr b \<Rightarrow> Ok (Before a b)))"
      and "parses W (stamp x)" and "parses W (stamp y)"
  shows "\<exists>b. lessFn x y = Ok b"
  using shape[of x y] assms(2,3) by (auto simp: parses_def split: sum.splits)

lemma siftLeft_sorted:
  assumes shape: "\<And>x y. lessFn x y =
            (case time_Parse W (stamp x) of
               Inl e \<Rightarrow> Panic e
             | Inr a \<Rightarrow> (case time_Parse W (stamp y) of
                           Inl e \<Rightarrow> Panic e
                         | Inr b \<Rightarrow> Ok (Before a b)))"
  shows "sorted_wrt (\<lambda>a b. stampLe W (stamp b) (stamp a)) left \<Longrightarrow>
         siftLeft lessFn x left = Ok left' \<Longrightarrow>
         sorted_wrt (\<lambda>a b. stampLe W (stamp b) (stamp a)) left'"
proof (induction left arbitrary: left')
  case Nil
  then show ?case by auto
next
  case (Cons y left)
  show ?case
  proof (cases "lessFn x y")
    case (Ok b)
    show ?thesis
    proof (cases b)
      case True
      with Ok Cons.prems(2) obtain l' where l': "siftLeft lessFn x left = Ok l'"
        and eq: "left' = y # l'"
        by (auto split: result.splits)
      from Cons.IH[OF _ l'] Cons.prems(1) have sorted: "sorted_wrt (\<lambda>a b. stampLe W (stamp b) (stamp a)) l'"
        by simp
      from shape_Ok[of lessFn W stamp, OF shape Ok] True
      have xy: "stampLe W (stamp x) (stamp y)"
        by simp
      have "set l' = insert x (set left)"
        using siftLeft_mset[OF l'] by (metis set_mset_add_mset_insert set_mset_mset)
      with xy Cons.prems(1) sorted eq show ?thesis
        by auto
    next
      case False
      with Ok Cons.prems(2) have eq: "left' = x # y # left"
        by auto
      from shape_Ok[of lessFn W stamp, OF shape Ok] False
      have yx: "stampLe W (stamp y) (stamp x)"
        by simp
      with Cons.prems(1) eq show ?thesis
        by (auto intro: stampLe_trans)
    qed
  next
    case (Err e)
    with Cons.prems(2) show ?thesis by simp
  next
    case (Panic e)
    with Cons.prems(2) show ?thesis by simp
  qed
qed

lemma insertionSort_mset:
  "insertionSort lessFn left rest = Ok ys \<Longrightarrow> mset ys = mset left + mset rest"
proof (induction rest arbitrary: left)
  case Nil
  then show ?case by auto
next
  case (Cons x rest)
  then show ?case
    by (auto split: result.splits dest!: siftLeft_mset)
qed

lemma insertionSort_sorted:
  assumes shape: "\<And>x y. lessFn x y =
            (case time_Parse W (stamp x) of
               Inl e \<Rightarrow> Panic e
             | Inr a \<Rightarrow> (case time_Parse W (stamp y) of
                           Inl e \<Rightarrow> Panic e
                         | Inr b \<Rightarrow> Ok (Before a b)))"
  shows "sorted_wrt (\<lambda>a b. stampLe W (stamp b) (stamp a)) left \<Longrightarrow>
         insertionSort lessFn left rest = Ok ys \<Longrightarrow>
         sorted_wrt (\<lambda>a b. stampLe W (stamp a) (stamp b)) ys"
proof (induction rest arbitrary: left)
  case Nil
  then show ?case by (auto simp: sorted_wrt_rev)
next
  case (Cons x rest)
  from Cons.prems(2) obtain left' where l': "siftLeft lessFn x left = Ok left'"
    and rest: "insertionSort lessFn left' rest = Ok ys"
    by (auto split: result.splits)
  from siftLeft_sorted[OF shape Cons.prems(1) l'] rest show ?case
    by (rule Cons.IH)
qed

lemma siftLeft_total:
  assumes shape: "\<And>x y. lessFn x y =
            (case time_Parse W (stamp x) of
               Inl e \<Rightarrow> Panic e
             | Inr a \<Rightarrow> (case time_Parse W (stamp y) of
                           Inl e \<Rightarrow> Panic e
                         | Inr b \<Rightarrow> Ok (Before a b)))"
  shows "parses W (stamp x) \<Longrightarrow> list_all (\<lambda>y. parses W (stamp y)) left \<Longrightarrow>
         \<exists>left'. siftLeft lessFn x left = Ok left'"
proof (induction left)
  case Nil
  then show ?case by simp
next
  case (Cons y left)
  then obtain l' where l': "siftLeft lessFn x left = Ok l'" by auto
  from shape_total[of lessFn W stamp x y, OF shape] Cons.prems
  obtain b where "lessFn x y = Ok b" by auto
  with l' show ?case
    by (cases b) auto
qed

lemma insertionSort_total:
  assumes shape: "\<And>x y. lessFn x y =
            (case time_Parse W (stamp x) of
               Inl e \<Rightarrow> Panic e
             | Inr a \<Rightarrow> (case time_Parse W (stamp y) of
                           Inl e \<Rightarrow> Panic e
                         | Inr b \<Rightarrow> Ok (Before a b)))"
  shows "list_all (\<lambda>y. parses W (stamp y)) left \<Longrightarrow> list_all (\<lambda>y. parses W (stamp y)) rest \<Longrightarrow>
         \<exists>ys. insertionSort lessFn left rest = Ok ys"
proof (induction rest arbitrary: left)
  case Nil
  then show ?case by simp
next
  case (Cons x rest)
  from Cons.prems have px: "parses W (stamp x)" by simp
  from siftLeft_total[OF shape px Cons.prems(1)]
  obtain left' where l': "siftLeft lessFn x left = Ok left'" by blast
  have "set left' = insert x (set left)"
    using siftLeft_mset[OF l'] by (metis set_mset_add_mset_insert set_mset_mset)
  with px Cons.prems(1) have "list_all (\<lambda>y. parses W (stamp y)) left'"
    by (simp add: list_all_iff)
  with Cons.IH[of left'] Cons.prems(2) l' show ?case
    by simp
qed

lemma siftLeft_not_Err:
  assumes shape: "\<And>x y. lessFn x y =
            (case time_Parse W (stamp x) of
               Inl e \<Rightarrow> Panic e
             | Inr a \<Rightarrow> (case time_Parse W (stamp y) of
                           Inl e \<Rightarrow> Panic e
                         | Inr b \<Rightarrow> Ok (Before a b)))"
  shows "siftLeft lessFn x left \<noteq> Err e"
proof (induction left)
  case Nil
  then show ?case by simp
next
  case (Cons y left)
  with shape_not_Err[of lessFn W stamp x y, OF shape] show ?case
    by (auto split: result.splits bool.splits)
qed

lemma insertionSort_not_Err:
  assumes shape: "\<And>x y. lessFn x y =
            (case time_Parse W (stamp x) of
               Inl e \<Rightarrow> Panic e
             | Inr a \<Rightarrow> (case time_Parse W (stamp y) of
                           Inl e \<Rightarrow> Panic e
                         | Inr b \<Rightarrow> Ok (Before a b)))"
  shows "insertionSort lessFn left rest \<noteq> Err e"
proof (induction rest arbitrary: left)
  case Nil
  then show ?case by simp
next
  case (Cons x rest)
  then show ?case
    using siftLeft_not_Err[of lessFn W stamp, OF shape]
    by (auto split: result.splits)
qed

lemma siftLeft_Ok_parses:
  assumes shape: "\<And>x y. lessFn x y =
            (case time_Parse W (stamp x) of
               Inl e \<Rightarrow> Panic e
             | Inr a \<Rightarrow> (case time_Parse W (stamp y) of
                           Inl e \<Rightarrow> Panic e
                         | Inr b \<Rightarrow> Ok (Before a b)))"
  shows "siftLeft lessFn x (y # left) = Ok left' \<Longrightarrow> parses W (stamp x) \<and> parses W (stamp y)"
  using shape_Ok[of lessFn W stamp x y, OF shape]
  by (cases "lessFn x y") auto

lemma insertionSort_Ok_parses:
  assumes shape: "\<And>x y. lessFn x y =
            (case time_Parse W (stamp x) of
               Inl e \<Rightarrow> Panic e
             | Inr a \<Rightarrow> (case time_Parse W (stamp y) of
                           Inl e \<Rightarrow> Panic e
                         | Inr b \<Rightarrow> Ok (Before a b)))"
  shows "length left \<le> 1 \<or> list_all (\<lambda>y. parses W (stamp y)) left \<Longrightarrow>
         insertionSort lessFn left rest = Ok ys \<Longrightarrow>
         length (left @ rest) \<le> 1 \<or> list_all (\<lambda>y. parses W (stamp y)) (left @ rest)"
proof (induction rest arbitrary: left)
  case Nil
  then show ?case by simp
next
  case (Cons x rest)
  from Cons.prems(2) obtain left' where l': "siftLeft lessFn x left = Ok left'"
    and rest: "insertionSort lessFn left' rest = Ok ys"
    by (auto split: result.splits)
  have set': "set left' = insert x (set left)"
    using siftLeft_mset[OF l'] by (metis set_mset_add_mset_insert set_mset_mset)
  have len': "length left' = Suc (length left)"
    using siftLeft_mset[OF l'] by (metis size_add_mset size_mset)
  have inv: "length left' \<le> 1 \<or> list_all (\<lambda>y. parses W (stamp y)) left'"
  proof (cases left)
    case Nil
    with len' show ?thesis by simp
  next
    case (Cons y more)
    with siftLeft_Ok_parses[of lessFn W stamp, OF shape] l'
    have both: "parses W (stamp x) \<and> parses W (stamp y)"
      by blast
    from Cons.prems(1) Cons both have "list_all (\<lambda>y. parses W (stamp y)) left"
      by (cases more) auto
    with both set' show ?thesis
      by (simp add: list_all_iff)
  qed
  from Cons.IH[OF inv rest] set' len' show ?case
    by (auto simp: list_all_iff)
qed

lemma sort_Slice_short: "length xs \<le> 1 \<Longrightarrow> sort_Slice xs lessFn = Ok xs"
  by (cases xs; cases "tl xs") (auto simp: sort_Slice_def)

lemma sort_Slice_Ok:
  assumes shape: "\<And>x y. lessFn x y =
            (case time_Parse W (stamp x) of
               Inl e \<Rightarrow> Panic e
             | Inr a \<Rightarrow> (case time_Parse W (stamp y) of
                           Inl e \<Rightarrow> Panic e
                         | Inr b \<Rightarrow> Ok (Before a b)))"
      and ok: "sort_Slice xs lessFn = Ok ys"
  shows "mset ys = mset xs"
    and "sorted_wrt (\<lambda>a b. stampLe W (stamp a) (stamp b)) ys"
    and "length xs \<le> 1 \<or> list_all (\<lambda>y. parses W (stamp y)) xs"
proof -
  from ok have run: "insertionSort lessFn [] xs = Ok ys"
    by (simp add: sort_Slice_def)
  from insertionSort_mset[OF run] show "mset ys = mset xs" by simp
  from insertionSort_sorted[of lessFn W stamp, OF shape _ run]
  show "sorted_wrt (\<lambda>a b. stampLe W (stamp a) (stamp b)) ys" by simp
  from insertionSort_Ok_parses[of lessFn W stamp, OF shape _ run]
  show "length xs \<le> 1 \<or> list_all (\<lambda>y. parses W (stamp y)) xs" by simp
qed

lemma sort_Slice_total:
  assumes shape: "\<And>x y. lessFn x y =
            (case time_Parse W (stamp x) of
               Inl e \<Rightarrow> Panic e
             | Inr a \<Rightarrow> (case time_Parse W (stamp y) of
                           Inl e \<Rightarrow> Panic e
                         | Inr b \<Rightarrow> Ok (Before a b)))"
      and "list_all (\<lambda>y. parses W (stamp y)) xs"
  shows "\<exists>ys. sort_Slice xs lessFn = Ok ys"
  using insertionSort_total[of lessFn W stamp "[]" xs, OF shape] assms(2)
  by (simp add: sort_Slice_def)

lemma sort_Slice_Panic_iff:
  assumes shape: "\<And>x y. lessFn x y =
            (case time_Parse W (stamp x) of
               Inl e \<Rightarrow> Panic e
             | Inr a \<Rightarrow> (case time_Parse W (stamp y) of
                           Inl e \<Rightarrow> Panic e
                         | Inr b \<Rightarrow> Ok (Before a b)))"
  shows "(\<exists>e. sort_Slice xs lessFn = Panic e)
         \<longleftrightarrow> 2 \<le> length xs \<and> \<not> list_all (\<lambda>y. parses W (stamp y)) xs"
proof
  assume "\<exists>e. sort_Slice xs lessFn = Panic e"
  then obtain e where p: "sort_Slice xs lessFn = Panic e" ..
  have "\<not> length xs \<le> 1"
    using sort_Slice_short[of xs lessFn] p by auto
  moreover have "\<not> list_all (\<lambda>y. parses W (stamp y)) xs"
    using sort_Slice_total[of lessFn W stamp xs, OF shape] p by auto
  ultimately show "2 \<le> length xs \<and> \<not> list_all (\<lambda>y. parses W (stamp y)) xs"
    by simp
next
  assume bad: "2 \<le> length xs \<and> \<not> list_all (\<lambda>y. parses W (stamp y)) xs"
  show "\<exists>e. sort_Slice xs lessFn = Panic e"
  proof (cases "sort_Slice xs lessFn")
    case (Ok ys)
    from sort_Slice_Ok(3)[of lessFn W stamp, OF shape Ok] bad show ?thesis
      by simp
  next
    case (Err e)
    with insertionSort_not_Err[of lessFn W stamp, OF shape] show ?thesis
      by (simp add: sort_Slice_def)
  next
    case (Panic e)
    then show ?thesis by blast
  qed
qed

subsection \<open>The sections of a card\<close>

lemma snd_andThen_unit:
  "snd (andThen m (\<lambda>_. k)) = Ok () \<longleftrightarrow> snd m = Ok () \<and> snd k = Ok ()"
  for m :: "unit io"
  by (simp add: snd_andThen_Ok)

lemma fst_andThen_unit:
  "snd m = Ok () \<Longrightarrow> fst (andThen m (\<lambda>_. k)) = fst m @ fst k"
  for m :: "unit io"
  by (cases m) simp

lemma printCardTitle_Ok:
  "time_Parse W (card_DateLastActivity crd) = Inr t \<Longrightarrow>
   printCardTitle W crd = (titleBlock W crd, Ok ())"
  by (simp add: printCardTitle_def titleBlock_def Printf_def)

lemma printCardTitle_Err:
  "time_Parse W (card_DateLastActivity crd) = Inl e \<Longrightarrow> printCardTitle W crd = ([], Err e)"
  by (simp add: printCardTitle_def silent_def)

lemma printCardTitle_Ok_iff:
  "snd (printCardTitle W crd) = Ok () \<longleftrightarrow> parses W (card_DateLastActivity crd)"
  by (cases "time_Parse W (card_DateLastActivity crd)")
     (simp_all add: printCardTitle_Ok printCardTitle_Err parses_def)

lemma printCardTitle_out:
  "snd (printCardTitle W crd) = Ok () \<Longrightarrow> fst (printCardTitle W crd) = titleBlock W crd"
  by (cases "time_Parse W (card_DateLastActivity crd)")
     (simp_all add: printCardTitle_Ok printCardTitle_Err)

lemma print_labels:
  "forEach (\<lambda>label. Printf (''`'' @ label_Name label @ ''` '')) (card_Labels crd)
   = (labelsText crd, Ok ())"
  by (simp add: forEach_total Printf_def labelsText_def)

lemma printCardLabelsAndMembers_Ok:
  "card_Members crd = Inr ms \<Longrightarrow>
   printCardLabelsAndMembers crd = (labelsAndMembersBlock crd, Ok ())"
  unfolding printCardLabelsAndMembers_def print_labels
  by (simp add: fetched_def labelsAndMembersBlock_def answer_def Printf_def)

lemma printCardLabelsAndMembers_Err:
  "card_Members crd = Inl e \<Longrightarrow>
   printCardLabelsAndMembers crd = (''##### '' @ labelsText crd, Err e)"
  unfolding printCardLabelsAndMembers_def print_labels
  by (simp add: fetched_def)

lemma labels_step_Ok_iff:
  "snd (if Bool_show_labels_and_members c then printCardLabelsAndMembers crd else skip) = Ok ()
   \<longleftrightarrow> (Bool_show_labels_and_members c \<longrightarrow> answered (card_Members crd))"
  by (cases "card_Members crd")
     (simp_all add: printCardLabelsAndMembers_Ok printCardLabelsAndMembers_Err answered_def skip_def)

lemma labels_step_out:
  "snd (if Bool_show_labels_and_members c then printCardLabelsAndMembers crd else skip) = Ok ()
   \<Longrightarrow> fst (if Bool_show_labels_and_members c then printCardLabelsAndMembers crd else skip)
       = (if Bool_show_labels_and_members c then labelsAndMembersBlock crd else [])"
  by (cases "Bool_show_labels_and_members c"; cases "card_Members crd")
     (simp_all add: printCardLabelsAndMembers_Ok printCardLabelsAndMembers_Err skip_def)

lemma description_step:
  "(if Bool_show_description c then printCardDescription crd else skip)
   = (if Bool_show_description c then descriptionBlock crd else [], Ok ())"
  by (simp add: printCardDescription_def descriptionBlock_def Printf_def skip_def)

lemma printCardAttachment_eq: "printCardAttachment a = (attachmentText a, Ok ())"
  by (simp add: printCardAttachment_def attachmentText_def Printf_def)

lemma attachments_Ok:
  "card_Attachments crd = Inr as \<Longrightarrow>
   andThen (silent (getCardAttachments crd)) (forEach printCardAttachment)
   = (attachmentsBlock crd, Ok ())"
  by (simp add: getCardAttachments_def fetched_def attachmentsBlock_def answer_def
      forEach_total[where body = printCardAttachment] printCardAttachment_eq)

lemma attachments_Err:
  "card_Attachments crd = Inl e \<Longrightarrow>
   andThen (silent (getCardAttachments crd)) (forEach printCardAttachment) = ([], Err e)"
  by (simp add: getCardAttachments_def fetched_def)

lemma attachments_step_Ok_iff:
  "snd (if Bool_show_attachments c
        then andThen (silent (getCardAttachments crd)) (forEach printCardAttachment)
        else skip) = Ok ()
   \<longleftrightarrow> (Bool_show_attachments c \<longrightarrow> answered (card_Attachments crd))"
  by (cases "card_Attachments crd")
     (simp_all add: attachments_Ok attachments_Err answered_def skip_def)

lemma attachments_step_out:
  "snd (if Bool_show_attachments c
        then andThen (silent (getCardAttachments crd)) (forEach printCardAttachment)
        else skip) = Ok ()
   \<Longrightarrow> fst (if Bool_show_attachments c
            then andThen (silent (getCardAttachments crd)) (forEach printCardAttachment)
            else skip)
       = (if Bool_show_attachments c then attachmentsBlock crd else [])"
  by (cases "Bool_show_attachments c"; cases "card_Attachments crd")
     (simp_all add: attachments_Ok attachments_Err skip_def)

lemma checklists_Ok:
  "card_Checklists crd = Inr cls \<Longrightarrow>
   andThen (silent (getCardCheckLists crd)) (forEach printCardChecklist)
   = (checklistsBlock crd, Ok ())"
  by (simp add: getCardCheckLists_def fetched_def checklistsBlock_def answer_def
      forEach_total[where body = printCardChecklist] printCardChecklist_eq)

lemma checklists_Err:
  "card_Checklists crd = Inl e \<Longrightarrow>
   andThen (silent (getCardCheckLists crd)) (forEach printCardChecklist) = ([], Err e)"
  by (simp add: getCardCheckLists_def fetched_def)

lemma checklists_step_Ok_iff:
  "snd (if Bool_show_checklists c
        then andThen (silent (getCardCheckLists crd)) (forEach printCardChecklist)
        else skip) = Ok ()
   \<longleftrightarrow> (Bool_show_checklists c \<longrightarrow> answered (card_Checklists crd))"
  by (cases "card_Checklists crd")
     (simp_all add: checklists_Ok checklists_Err answered_def skip_def)

lemma checklists_step_out:
  "snd (if Bool_show_checklists c
        then andThen (silent (getCardCheckLists crd)) (forEach printCardChecklist)
        else skip) = Ok ()
   \<Longrightarrow> fst (if Bool_show_checklists c
            then andThen (silent (getCardCheckLists crd)) (forEach printCardChecklist)
            else skip)
       = (if Bool_show_checklists c then checklistsBlock crd else [])"
  by (cases "Bool_show_checklists c"; cases "card_Checklists crd")
     (simp_all add: checklists_Ok checklists_Err skip_def)

subsection \<open>Comments\<close>

lemma splitLines_not_Nil: "splitLines s \<noteq> []"
  by (induction s) (auto split: list.splits)

lemma strings_Replace_newline:
  "strings_Replace (c # cs) ''\<newline>'' ''\<newline>> '' =
     (if c = CHR ''\<newline>'' then ''\<newline>> '' @ strings_Replace cs ''\<newline>'' ''\<newline>> ''
      else c # strings_Replace cs ''\<newline>'' ''\<newline>> '')"
  by simp

lemma quoted_Replace:
  "''> '' @ strings_Replace s ''\<newline>'' ''\<newline>> '' @ ''\<newline>'' = quoted s"
proof (induction s)
  case Nil
  show ?case by (simp add: quoted_def)
next
  case (Cons c cs)
  show ?case
  proof (cases "c = CHR ''\<newline>''")
    case True
    with Cons.IH show ?thesis
      by (simp add: quoted_def)
  next
    case False
    obtain l ls where sp: "splitLines cs = l # ls"
      using splitLines_not_Nil[of cs] by (cases "splitLines cs") auto
    with Cons.IH False show ?thesis
      by (simp add: quoted_def)
  qed
qed

lemma printCardComment_Ok:
  assumes "time_Parse W (action_Date a) = Inr t"
  shows "printCardComment W a = (commentText W a, Ok ())"
proof -
  have "''> '' @ strings_Replace (action_Data_Text a) ''\<newline>'' ''\<newline>> '' @ ''\<newline>\<newline>''
        = quoted (action_Data_Text a) @ ''\<newline>''"
    using quoted_Replace[of "action_Data_Text a"] by simp
  with assms show ?thesis
    by (simp add: printCardComment_def commentText_def Printf_def del: strings_Replace.simps)
qed

lemma printCardComment_Err:
  "time_Parse W (action_Date a) = Inl e \<Longrightarrow> printCardComment W a = ([], Err e)"
  by (simp add: printCardComment_def silent_def)

lemma printCardComment_Ok_iff:
  "snd (printCardComment W a) = Ok () \<longleftrightarrow> parses W (action_Date a)"
  by (cases "time_Parse W (action_Date a)")
     (simp_all add: printCardComment_Ok printCardComment_Err parses_def)

lemma printCardComment_out:
  "snd (printCardComment W a) = Ok () \<Longrightarrow> fst (printCardComment W a) = commentText W a"
  by (cases "time_Parse W (action_Date a)")
     (simp_all add: printCardComment_Ok printCardComment_Err)

lemma print_comments_Ok_iff:
  "snd (forEach (printCardComment W) cs) = Ok () \<longleftrightarrow> list_all (\<lambda>a. parses W (action_Date a)) cs"
  by (simp add: forEach_Ok_iff printCardComment_Ok_iff)

lemma print_comments_out:
  "snd (forEach (printCardComment W) cs) = Ok () \<Longrightarrow>
   fst (forEach (printCardComment W) cs) = concat (map (commentText W) cs)"
proof -
  assume ok: "snd (forEach (printCardComment W) cs) = Ok ()"
  then have "list_all (\<lambda>a. snd (printCardComment W a) = Ok ()) cs"
    by (simp add: forEach_Ok_iff)
  then have "map (\<lambda>a. fst (printCardComment W a)) cs = map (commentText W) cs"
    by (simp add: list_all_iff printCardComment_out)
  with forEach_Ok_out[OF ok] show ?thesis
    by simp
qed

lemma actionLess_shape:
  "actionLess W x y =
     (case time_Parse W (action_Date x) of
        Inl e \<Rightarrow> Panic e
      | Inr a \<Rightarrow> (case time_Parse W (action_Date y) of
                    Inl e \<Rightarrow> Panic e
                  | Inr b \<Rightarrow> Ok (Before a b)))"
  by (simp add: actionLess_def)

lemma cardLess_shape:
  "cardLess W x y =
     (case time_Parse W (card_DateLastActivity x) of
        Inl e \<Rightarrow> Panic e
      | Inr a \<Rightarrow> (case time_Parse W (card_DateLastActivity y) of
                    Inl e \<Rightarrow> Panic e
                  | Inr b \<Rightarrow> Ok (Before a b)))"
  by (simp add: cardLess_def)

lemma getCardComments_Err_iff: "getCardComments W crd = Err e \<longleftrightarrow> card_Actions crd = Inl e"
  using insertionSort_not_Err[of "actionLess W" W action_Date, OF actionLess_shape]
  by (cases "card_Actions crd") (auto simp: getCardComments_def commentCardAction_def sort_Slice_def)

lemma getCardComments_Inr:
  "card_Actions crd = Inr as \<Longrightarrow>
   getCardComments W crd = sort_Slice (commentActions crd) (actionLess W)"
  by (simp add: getCardComments_def commentActions_def commentCardAction_def answer_def)

lemma getCardComments_Ok:
  assumes "getCardComments W crd = Ok cs"
  shows "answered (card_Actions crd)"
    and "mset cs = mset (commentActions crd)"
    and "sorted_wrt (\<lambda>a b. stampLe W (action_Date a) (action_Date b)) cs"
    and "length (commentActions crd) \<le> 1
         \<or> list_all (\<lambda>a. parses W (action_Date a)) (commentActions crd)"
proof -
  from assms obtain as where as: "card_Actions crd = Inr as"
    by (cases "card_Actions crd") (auto simp: getCardComments_def)
  then show "answered (card_Actions crd)"
    by (simp add: answered_def)
  from assms getCardComments_Inr[OF as]
  have run: "sort_Slice (commentActions crd) (actionLess W) = Ok cs"
    by simp
  from sort_Slice_Ok[of "actionLess W" W action_Date, OF actionLess_shape run]
  show "mset cs = mset (commentActions crd)"
    and "sorted_wrt (\<lambda>a b. stampLe W (action_Date a) (action_Date b)) cs"
    and "length (commentActions crd) \<le> 1
         \<or> list_all (\<lambda>a. parses W (action_Date a)) (commentActions crd)"
    by simp_all
qed

lemma getCardComments_total:
  assumes "card_Actions crd = Inr as"
      and "list_all (\<lambda>a. parses W (action_Date a)) (commentActions crd)"
  shows "\<exists>cs. getCardComments W crd = Ok cs"
  using sort_Slice_total[of "actionLess W" W action_Date, OF actionLess_shape assms(2)]
    getCardComments_Inr[OF assms(1)]
  by simp

lemma getCardComments_Panic_iff:
  "(\<exists>e. getCardComments W crd = Panic e) \<longleftrightarrow> commentsSortFault W crd"
proof (cases "card_Actions crd")
  case (Inl e)
  then show ?thesis
    by (simp add: getCardComments_def commentsSortFault_def commentActions_def answer_def)
next
  case (Inr as)
  from sort_Slice_Panic_iff[of "actionLess W" W action_Date, OF actionLess_shape]
    getCardComments_Inr[OF Inr]
  show ?thesis
    by (simp add: commentsSortFault_def)
qed

lemma comments_run_Ok_iff:
  "snd (andThen (silent (getCardComments W crd)) (forEach (printCardComment W))) = Ok ()
   \<longleftrightarrow> answered (card_Actions crd)
       \<and> list_all (\<lambda>a. parses W (action_Date a)) (commentActions crd)"
proof (cases "getCardComments W crd")
  case (Ok cs)
  from getCardComments_Ok(2)[OF Ok] have "set cs = set (commentActions crd)"
    by (metis set_mset_mset)
  with Ok getCardComments_Ok(1)[OF Ok] show ?thesis
    by (simp add: print_comments_Ok_iff list_all_iff)
next
  case (Err e)
  then have "card_Actions crd = Inl e"
    by (simp add: getCardComments_Err_iff)
  with Err show ?thesis
    by (simp add: answered_def)
next
  case (Panic e)
  then have "commentsSortFault W crd"
    using getCardComments_Panic_iff by blast
  with Panic show ?thesis
    by (simp add: commentsSortFault_def)
qed

lemma comments_run_out:
  assumes "snd (andThen (silent (getCardComments W crd)) (forEach (printCardComment W))) = Ok ()"
  shows "fst (andThen (silent (getCardComments W crd)) (forEach (printCardComment W)))
         = commentsBlock W crd"
proof (cases "getCardComments W crd")
  case (Ok cs)
  with assms show ?thesis
    by (simp add: commentsBlock_def commentsOf_def print_comments_out)
next
  case (Err e)
  with assms show ?thesis by simp
next
  case (Panic e)
  with assms show ?thesis by simp
qed

lemma comments_step_Ok_iff:
  "snd (if Bool_show_comments c
        then andThen (silent (getCardComments W crd)) (forEach (printCardComment W))
        else skip) = Ok ()
   \<longleftrightarrow> (Bool_show_comments c \<longrightarrow>
         answered (card_Actions crd)
         \<and> list_all (\<lambda>a. parses W (action_Date a)) (commentActions crd))"
  by (simp add: comments_run_Ok_iff skip_def)

lemma comments_step_out:
  "snd (if Bool_show_comments c
        then andThen (silent (getCardComments W crd)) (forEach (printCardComment W))
        else skip) = Ok ()
   \<Longrightarrow> fst (if Bool_show_comments c
            then andThen (silent (getCardComments W crd)) (forEach (printCardComment W))
            else skip)
       = (if Bool_show_comments c then commentsBlock W crd else [])"
  by (cases "Bool_show_comments c") (simp_all add: comments_run_out skip_def)

subsection \<open>A card, a board, a run\<close>

lemma exportCard_Ok_iff: "snd (exportCard W c crd) = Ok () \<longleftrightarrow> cardClean W c crd"
  unfolding exportCard_def cardClean_def snd_andThen_unit
  by (simp only: printCardTitle_Ok_iff labels_step_Ok_iff description_step snd_conv
      attachments_step_Ok_iff checklists_step_Ok_iff comments_step_Ok_iff simp_thms)

lemma exportCard_out:
  assumes "snd (exportCard W c crd) = Ok ()"
  shows "fst (exportCard W c crd) = cardSections W c crd"
proof -
  from assms have ok:
    "snd (printCardTitle W crd) = Ok ()"
    "snd (if Bool_show_labels_and_members c then printCardLabelsAndMembers crd else skip) = Ok ()"
    "snd (if Bool_show_attachments c
          then andThen (silent (getCardAttachments crd)) (forEach printCardAttachment)
          else skip) = Ok ()"
    "snd (if Bool_show_checklists c
          then andThen (silent (getCardCheckLists crd)) (forEach printCardChecklist)
          else skip) = Ok ()"
    "snd (if Bool_show_comments c
          then andThen (silent (getCardComments W crd)) (forEach (printCardComment W))
          else skip) = Ok ()"
    unfolding exportCard_def snd_andThen_unit by simp_all
  show ?thesis
    unfolding exportCard_def cardSections_def
    by (simp only: fst_andThen_unit[OF ok(1)] fst_andThen_unit[OF ok(2)]
        fst_andThen_unit[OF ok(3)] fst_andThen_unit[OF ok(4)]
        printCardTitle_out[OF ok(1)] labels_step_out[OF ok(2)] description_step andThen_Ok
        fst_conv
        attachments_step_out[OF ok(3)] checklists_step_out[OF ok(4)] comments_step_out[OF ok(5)])
qed

lemma getCards_Inr:
  "list_Cards l = Inr cards \<Longrightarrow> getCards W l = sort_Slice cards (cardLess W)"
  by (simp add: getCards_def)

lemma getCards_Err_iff: "getCards W l = Err e \<longleftrightarrow> list_Cards l = Inl e"
  using insertionSort_not_Err[of "cardLess W" W card_DateLastActivity, OF cardLess_shape]
  by (cases "list_Cards l") (auto simp: getCards_def sort_Slice_def)

lemma getCards_Ok:
  assumes "getCards W l = Ok cs"
  shows "\<exists>cards. list_Cards l = Inr cards \<and> mset cs = mset cards
           \<and> (length cards \<le> 1 \<or> list_all (\<lambda>crd. parses W (card_DateLastActivity crd)) cards)"
    and "sorted_wrt (\<lambda>a b. stampLe W (card_DateLastActivity a) (card_DateLastActivity b)) cs"
proof -
  from assms obtain cards where cards: "list_Cards l = Inr cards"
    by (cases "list_Cards l") (auto simp: getCards_def)
  with assms have run: "sort_Slice cards (cardLess W) = Ok cs"
    by (simp add: getCards_Inr)
  from sort_Slice_Ok[of "cardLess W" W card_DateLastActivity, OF cardLess_shape run] cards
  show "\<exists>cards. list_Cards l = Inr cards \<and> mset cs = mset cards
           \<and> (length cards \<le> 1 \<or> list_all (\<lambda>crd. parses W (card_DateLastActivity crd)) cards)"
    and "sorted_wrt (\<lambda>a b. stampLe W (card_DateLastActivity a) (card_DateLastActivity b)) cs"
    by simp_all
qed

lemma getCards_total:
  assumes "list_Cards l = Inr cards"
      and "list_all (\<lambda>crd. parses W (card_DateLastActivity crd)) cards"
  shows "\<exists>cs. getCards W l = Ok cs"
  using sort_Slice_total[of "cardLess W" W card_DateLastActivity, OF cardLess_shape assms(2)]
    getCards_Inr[OF assms(1)]
  by simp

lemma getCards_Panic_iff:
  "(\<exists>e. getCards W l = Panic e)
   \<longleftrightarrow> (\<exists>cards. list_Cards l = Inr cards \<and> cardsSortFault W cards)"
proof (cases "list_Cards l")
  case (Inl e)
  then show ?thesis
    by (simp add: getCards_def)
next
  case (Inr cards)
  from sort_Slice_Panic_iff[of "cardLess W" W card_DateLastActivity, OF cardLess_shape]
    getCards_Inr[OF Inr] Inr
  show ?thesis
    by (simp add: cardsSortFault_def)
qed

lemma getList_Ok_iff:
  "getList board (String_list_filter c) = Ok l \<longleftrightarrow> exportedList c board = Some l"
  by (cases "board_Lists board")
     (auto simp: getList_def exportedList_def firstNamed_find split: option.splits)

lemma getList_not_Panic: "getList board f \<noteq> Panic e"
  by (cases "board_Lists board") (auto simp: getList_def firstNamed_find split: option.splits)

lemma export_cards_Ok_iff:
  "snd (forEach (exportCard W c) cs) = Ok () \<longleftrightarrow> list_all (cardClean W c) cs"
  by (simp add: forEach_Ok_iff exportCard_Ok_iff)

lemma export_cards_out:
  assumes ok: "snd (forEach (exportCard W c) cs) = Ok ()"
  shows "fst (forEach (exportCard W c) cs) = concat (map (cardSections W c) cs)"
proof -
  from ok have "list_all (\<lambda>crd. snd (exportCard W c crd) = Ok ()) cs"
    by (simp add: forEach_Ok_iff)
  then have "map (\<lambda>crd. fst (exportCard W c crd)) cs = map (cardSections W c) cs"
    by (simp add: list_all_iff exportCard_out)
  with forEach_Ok_out[OF ok] show ?thesis
    by simp
qed

lemma exportBoard_cases:
  "exportBoard W c board =
     (case getList board (String_list_filter c) of
        Ok l \<Rightarrow>
          (case getCards W l of
             Ok cs \<Rightarrow> (''### '' @ board_Name board @ ''\<newline>'' @ fst (forEach (exportCard W c) cs),
                       snd (forEach (exportCard W c) cs))
           | Err e \<Rightarrow> (''### '' @ board_Name board @ ''\<newline>'', Err e)
           | Panic e \<Rightarrow> (''### '' @ board_Name board @ ''\<newline>'', Panic e))
      | Err e \<Rightarrow> (''### '' @ board_Name board @ ''\<newline>'', Err e)
      | Panic e \<Rightarrow> (''### '' @ board_Name board @ ''\<newline>'', Panic e))"
  by (simp add: exportBoard_def printBoard_def split: result.splits)

lemma exportBoard_Ok_iff: "snd (exportBoard W c board) = Ok () \<longleftrightarrow> boardClean W c board"
proof (cases "getList board (String_list_filter c)")
  case (Ok l)
  then have el: "exportedList c board = Some l"
    by (simp add: getList_Ok_iff)
  show ?thesis
  proof (cases "getCards W l")
    case cs: (Ok cs)
    from getCards_Ok(1)[OF cs] obtain cards where cards: "list_Cards l = Inr cards"
      and perm: "mset cs = mset cards"
      by blast
    from perm have "set cs = set cards"
      by (metis set_mset_mset)
    with Ok cs el cards show ?thesis
      by (simp add: exportBoard_cases boardClean_def export_cards_Ok_iff list_all_iff)
  next
    case (Err e)
    then have "list_Cards l = Inl e"
      by (simp add: getCards_Err_iff)
    with Ok Err el show ?thesis
      by (simp add: exportBoard_cases boardClean_def)
  next
    case (Panic e)
    then obtain cards where cards: "list_Cards l = Inr cards" and bad: "cardsSortFault W cards"
      using getCards_Panic_iff by blast
    from bad have "\<not> list_all (cardClean W c) cards"
      by (auto simp: cardsSortFault_def cardClean_def list_all_iff)
    with Ok Panic el cards show ?thesis
      by (simp add: exportBoard_cases boardClean_def)
  qed
next
  case (Err e)
  then have "exportedList c board = None"
    using getList_Ok_iff[of board c] by (cases "exportedList c board") auto
  with Err show ?thesis
    by (simp add: exportBoard_cases boardClean_def)
next
  case (Panic e)
  then show ?thesis
    by (simp add: getList_not_Panic)
qed

lemma exportBoard_out:
  assumes ok: "snd (exportBoard W c board) = Ok ()"
  shows "fst (exportBoard W c board) = boardSection W c board"
proof -
  from ok obtain l cs where l: "getList board (String_list_filter c) = Ok l"
    and cs: "getCards W l = Ok cs"
    by (auto simp: exportBoard_cases split: result.splits)
  with ok have "snd (forEach (exportCard W c) cs) = Ok ()"
    by (simp add: exportBoard_cases)
  from export_cards_out[OF this] l cs show ?thesis
    by (simp add: exportBoard_cases boardSection_def cardsOf_def)
qed

lemma getBoards_not_Panic: "getBoards client ids \<noteq> Panic e"
  by (induction ids) (auto split: sum.splits result.splits)

lemma getBoards_Ok_all:
  "getBoards client ids = Ok boards \<Longrightarrow>
   list_all (\<lambda>boardId. case client_Board client boardId of Inl _ \<Rightarrow> False | Inr b \<Rightarrow> Q b) ids
   \<longleftrightarrow> list_all Q boards"
  by (induction ids arbitrary: boards) (auto split: sum.splits result.splits)

lemma getBoards_Ok_ex:
  "getBoards client ids = Ok boards \<Longrightarrow>
   list_ex (\<lambda>boardId. case client_Board client boardId of Inl _ \<Rightarrow> False | Inr b \<Rightarrow> Q b) ids
   \<longleftrightarrow> list_ex Q boards"
  by (induction ids arbitrary: boards) (auto split: sum.splits result.splits)

lemma getBoards_Err_all:
  "getBoards client ids = Err e \<Longrightarrow>
   \<not> list_all (\<lambda>boardId. case client_Board client boardId of Inl _ \<Rightarrow> False | Inr b \<Rightarrow> Q b) ids"
  by (induction ids) (auto split: sum.splits result.splits)

lemma exportBoards_cases:
  "exportBoards W c =
     (case trello_NewAuthClient W (GlobalString_key c) (GlobalString_token c) of
        Inl e \<Rightarrow> ([], Err e)
      | Inr client \<Rightarrow>
          (case getBoards client (StringSlice_board_id c) of
             Ok boards \<Rightarrow>
               (''## '' @ time_Format W (time_Now W) @ ''\<newline>''
                  @ fst (forEach (exportBoard W c) boards),
                snd (forEach (exportBoard W c) boards))
           | Err e \<Rightarrow> (''## '' @ time_Format W (time_Now W) @ ''\<newline>'', Err e)
           | Panic e \<Rightarrow> (''## '' @ time_Format W (time_Now W) @ ''\<newline>'', Panic e)))"
  by (simp add: exportBoards_def printDate_def fetched_def split: sum.splits result.splits)

lemma export_boards_Ok_iff:
  "snd (forEach (exportBoard W c) boards) = Ok () \<longleftrightarrow> list_all (boardClean W c) boards"
  by (simp add: forEach_Ok_iff exportBoard_Ok_iff)

lemma exportBoards_Ok_iff: "snd (exportBoards W c) = Ok () \<longleftrightarrow> exportClean W c"
proof (cases "trello_NewAuthClient W (GlobalString_key c) (GlobalString_token c)")
  case (Inl e)
  then show ?thesis
    by (simp add: exportBoards_cases exportClean_def)
next
  case (Inr client)
  show ?thesis
  proof (cases "getBoards client (StringSlice_board_id c)")
    case (Ok boards)
    from getBoards_Ok_all[OF Ok, of "boardClean W c"] Inr Ok show ?thesis
      by (simp add: exportBoards_cases exportClean_def export_boards_Ok_iff)
  next
    case (Err e)
    from getBoards_Err_all[OF Err, of "boardClean W c"] Inr Err show ?thesis
      by (simp add: exportBoards_cases exportClean_def)
  next
    case (Panic e)
    then show ?thesis
      by (simp add: getBoards_not_Panic)
  qed
qed

subsection \<open>The concrete world on sample timestamps\<close>

lemma utcParse_jan: "utcParse ''2024-01-05T10:00:00Z'' = Inr (Time 1704448800000000000 0)"
  by code_simp

lemma utcParse_feb: "utcParse ''2024-02-01T12:30:00Z'' = Inr (Time 1706790600000000000 0)"
  by code_simp

lemma utcParse_mar: "utcParse ''2024-03-01T00:00:00Z'' = Inr (Time 1709251200000000000 0)"
  by code_simp

lemma utcParse_yesterday: "utcParse ''yesterday'' = Inl (ParseError ''yesterday'')"
  by (simp add: utcParse_def)

lemma utcFormat_jan: "utcFormat (Time 1704448800000000000 0) = ''2024-01-05''"
  by code_simp

lemma utcFormat_feb: "utcFormat (Time 1706790600000000000 0) = ''2024-02-01''"
  by code_simp

lemma utcFormat_mar: "utcFormat (Time 1709251200000000000 0) = ''2024-03-01''"
  by code_simp

lemmas utc_samples =
  utcParse_jan utcParse_feb utcParse_mar utcParse_yesterday
  utcFormat_jan utcFormat_feb utcFormat_mar utcFormat_now

subsection \<open>The end-to-end scenario\<close>

lemma scenario_run:
  assumes "time_Parse W ''2024-01-05T10:00:00Z'' = Inr t"
      and "time_Format W t = ''2024-01-05''"
      and "trello_NewAuthClient W (GlobalString_key c) (GlobalString_token c) = Inr client"
      and "StringSlice_board_id c = [boardId]"
      and "client_Board client boardId = Inr (boardB1 url)"
      and "String_list_filter c = ''Done''"
      and "Bool_show_labels_and_members c" and "Bool_show_description c"
      and "Bool_show_attachments c" and "Bool_show_checklists c" and "Bool_show_comments c"
  shows "exportBoards W c =
           (''## '' @ time_Format W (time_Now W) @ ''\<newline>''
            @ ''### B1\<newline>''
            @ ''#### **2024-01-05** [Fix bug]('' @ url @ '')\<newline>''
            @ ''##### - **[]**\<newline>''
            @ ''Fixed it\<newline>\<newline>''
            @ ''QA\<newline>- [x] Test\<newline>- [ ] Deploy\<newline>\<newline>'', Ok ())"
proof -
  have lst: "getList (boardB1 url) ''Done''
             = Ok \<lparr> list_Name = ''Done'', list_Cards = Inr [fixBugCard url] \<rparr>"
    by (simp add: getList_def boardB1_def)
  have cards: "getCards W \<lparr> list_Name = ''Done'', list_Cards = Inr [fixBugCard url] \<rparr>
               = Ok [fixBugCard url]"
    by (simp add: getCards_def sort_Slice_def)
  have title: "printCardTitle W (fixBugCard url)
               = (''#### **2024-01-05** [Fix bug]('' @ url @ '')\<newline>'', Ok ())"
    using assms(1,2) by (simp add: printCardTitle_def fixBugCard_def Printf_def)
  have members: "printCardLabelsAndMembers (fixBugCard url) = (''##### - **[]**\<newline>'', Ok ())"
    by (simp add: printCardLabelsAndMembers_def fixBugCard_def fetched_def Printf_def skip_def)
  have desc: "printCardDescription (fixBugCard url) = (''Fixed it\<newline>\<newline>'', Ok ())"
    by (simp add: printCardDescription_def fixBugCard_def Printf_def)
  have att: "andThen (silent (getCardAttachments (fixBugCard url))) (forEach printCardAttachment)
             = ([], Ok ())"
    by (simp add: getCardAttachments_def fixBugCard_def fetched_def skip_def)
  have chk: "andThen (silent (getCardCheckLists (fixBugCard url))) (forEach printCardChecklist)
             = (''QA\<newline>- [x] Test\<newline>- [ ] Deploy\<newline>\<newline>'', Ok ())"
    by (simp add: getCardCheckLists_def fixBugCard_def fetched_def printCardChecklist_def
        printCheckItem_def Printf_def skip_def)
  have com: "andThen (silent (getCardComments W (fixBugCard url))) (forEach (printCardComment W))
             = ([], Ok ())"
    by (simp add: getCardComments_def fixBugCard_def sort_Slice_def skip_def)
  have crd: "exportCard W c (fixBugCard url)
             = (''#### **2024-01-05** [Fix bug]('' @ url @ '')\<newline>''
                @ ''##### - **[]**\<newline>''
                @ ''Fixed it\<newline>\<newline>''
                @ ''QA\<newline>- [x] Test\<newline>- [ ] Deploy\<newline>\<newline>'', Ok ())"
    using assms(7-11) by (simp add: exportCard_def title members desc att chk com)
  have name: "board_Name (boardB1 url) = ''B1''"
    by (simp add: boardB1_def)
  have brd: "exportBoard W c (boardB1 url)
             = (''### B1\<newline>''
                @ ''#### **2024-01-05** [Fix bug]('' @ url @ '')\<newline>''
                @ ''##### - **[]**\<newline>''
                @ ''Fixed it\<newline>\<newline>''
                @ ''QA\<newline>- [x] Test\<newline>- [ ] Deploy\<newline>\<newline>'', Ok ())"
    using assms(6) by (simp add: exportBoard_cases lst cards crd skip_def name)
  show ?thesis
    using assms(3,4,5)
    by (simp add: exportBoards_def fetched_def printDate_def brd skip_def)
qed

subsection \<open>The program against the script\<close>

lemma perform_Nil [simp]: "perform [] = ([], Ok ())"
  by (simp add: perform_def emitted_def outcome_def)

lemma perform_Emit [simp]:
  "perform (Emit s # steps) = (s @ fst (perform steps), snd (perform steps))"
  by (simp add: perform_def emitted_def outcome_def)

lemma perform_Return [simp]: "perform (Return e # steps) = ([], Err e)"
  by (simp add: perform_def emitted_def outcome_def)

lemma perform_Panicked [simp]: "perform (Panicked e # steps) = ([], Panic e)"
  by (simp add: perform_def emitted_def outcome_def)

lemma perform_append: "perform (xs @ ys) = andThen (perform xs) (\<lambda>_. perform ys)"
proof (induction xs)
  case Nil
  show ?case by (simp add: prod_eq_iff)
next
  case (Cons x xs)
  then show ?case
    by (cases x; cases "perform xs"; cases "snd (perform xs)")
       (auto simp: andThen_def split: prod.splits)
qed

lemma forEach_perform:
  assumes "\<And>x. body x = perform (script x)"
  shows "forEach body xs = perform (concat (map script xs))"
  by (induction xs) (simp_all add: skip_def assms perform_append)

lemma perform_Emits: "perform (map Emit ts) = (concat ts, Ok ())"
  by (induction ts) simp_all

lemma printCardTitle_script: "printCardTitle W crd = perform (titleSteps W crd)"
  by (cases "time_Parse W (card_DateLastActivity crd)")
     (simp_all add: printCardTitle_def titleSteps_def silent_def Printf_def)

lemma printCardLabelsAndMembers_script:
  "printCardLabelsAndMembers crd = perform (labelsAndMembersSteps crd)"
proof -
  have labels: "perform (map (\<lambda>l. Emit (''`'' @ label_Name l @ ''` '')) (card_Labels crd))
                = (labelsText crd, Ok ())"
    using perform_Emits[of "map (\<lambda>l. ''`'' @ label_Name l @ ''` '') (card_Labels crd)"]
    by (simp add: labelsText_def comp_def)
  show ?thesis
  proof (cases "card_Members crd")
    case (Inl e)
    with printCardLabelsAndMembers_Err[OF Inl] labels show ?thesis
      by (simp add: labelsAndMembersSteps_def perform_append)
  next
    case (Inr ms)
    with printCardLabelsAndMembers_Ok[OF Inr] labels show ?thesis
      by (simp add: labelsAndMembersSteps_def perform_append labelsAndMembersBlock_def answer_def)
  qed
qed

lemma printCardDescription_script: "printCardDescription crd = perform (descriptionSteps crd)"
  by (simp add: printCardDescription_def descriptionSteps_def Printf_def)

lemma attachments_script:
  "andThen (silent (getCardAttachments crd)) (forEach printCardAttachment)
   = perform (attachmentsSteps crd)"
proof (cases "card_Attachments crd")
  case (Inl e)
  with attachments_Err[OF Inl] show ?thesis
    by (simp add: attachmentsSteps_def)
next
  case (Inr as)
  with attachments_Ok[OF Inr] perform_Emits[of "map attachmentText as"] show ?thesis
    by (simp add: attachmentsSteps_def attachmentsBlock_def answer_def comp_def)
qed

lemma checklists_script:
  "andThen (silent (getCardCheckLists crd)) (forEach printCardChecklist)
   = perform (checklistsSteps crd)"
proof (cases "card_Checklists crd")
  case (Inl e)
  with checklists_Err[OF Inl] show ?thesis
    by (simp add: checklistsSteps_def)
next
  case (Inr cls)
  with checklists_Ok[OF Inr] perform_Emits[of "map checklistText cls"] show ?thesis
    by (simp add: checklistsSteps_def checklistsBlock_def answer_def comp_def)
qed

lemma printCardComment_script: "printCardComment W a = perform (commentSteps W a)"
proof (cases "time_Parse W (action_Date a)")
  case (Inl e)
  with printCardComment_Err[OF Inl] show ?thesis
    by (simp add: commentSteps_def)
next
  case (Inr t)
  with printCardComment_Ok[OF Inr] show ?thesis
    by (simp add: commentSteps_def commentText_def)
qed

lemma comments_script:
  "andThen (silent (getCardComments W crd)) (forEach (printCardComment W))
   = perform (commentsSteps W (\<lambda>xs. sort_Slice xs (actionLess W)) crd)"
proof (cases "card_Actions crd")
  case (Inl e)
  then show ?thesis
    by (simp add: getCardComments_def commentsSteps_def)
next
  case (Inr as)
  then show ?thesis
    by (cases "sort_Slice (filter (\<lambda>a. action_Type a = ''commentCard'') as) (actionLess W)")
       (simp_all add: getCardComments_def commentCardAction_def commentsSteps_def
         forEach_perform[where script = "commentSteps W"] printCardComment_script)
qed

lemma exportCard_script:
  "exportCard W c crd = perform (cardScript W c (\<lambda>xs. sort_Slice xs (actionLess W)) crd)"
  unfolding exportCard_def cardScript_def perform_append
  by (simp add: printCardTitle_script printCardLabelsAndMembers_script
      printCardDescription_script attachments_script checklists_script comments_script
      skip_def)

lemma exportBoard_script:
  "exportBoard W c board
   = perform (boardScript W c (\<lambda>xs. sort_Slice xs (cardLess W))
                (\<lambda>xs. sort_Slice xs (actionLess W)) board)"
proof (cases "board_Lists board")
  case (Inl e)
  then show ?thesis
    by (simp add: exportBoard_def printBoard_def getList_def boardScript_def)
next
  case (Inr ls)
  show ?thesis
  proof (cases "List.find (\<lambda>l. list_Name l = String_list_filter c) ls")
    case None
    with Inr show ?thesis
      by (simp add: exportBoard_def printBoard_def getList_def firstNamed_find boardScript_def)
  next
    case (Some l)
    show ?thesis
    proof (cases "list_Cards l")
      case (Inl e)
      with Inr Some show ?thesis
        by (simp add: exportBoard_def printBoard_def getList_def firstNamed_find getCards_def
            boardScript_def)
    next
      case cards: (Inr cards)
      with Inr Some show ?thesis
        by (cases "sort_Slice cards (cardLess W)")
           (simp_all add: exportBoard_def printBoard_def getList_def firstNamed_find
             getCards_def boardScript_def
             forEach_perform[where script = "cardScript W c (\<lambda>xs. sort_Slice xs (actionLess W))"]
             exportCard_script)
    qed
  qed
qed

lemma getBoards_answers:
  "getBoards client ids =
     (case firstError (map (client_Board client) ids) of
        Some e \<Rightarrow> Err e
      | None \<Rightarrow> Ok (answers (map (client_Board client) ids)))"
  by (induction ids) (auto split: sum.splits option.splits)

lemma exportBoards_script:
  "exportBoards W c
   = perform (documentScript W c (\<lambda>xs. sort_Slice xs (cardLess W))
                (\<lambda>xs. sort_Slice xs (actionLess W)))"
proof (cases "trello_NewAuthClient W (GlobalString_key c) (GlobalString_token c)")
  case (Inl e)
  then show ?thesis
    by (simp add: exportBoards_def fetched_def documentScript_def)
next
  case (Inr client)
  then show ?thesis
    by (cases "firstError (map (client_Board client) (StringSlice_board_id c))")
       (simp_all add: exportBoards_def fetched_def printDate_def documentScript_def
         getBoards_answers
         forEach_perform[where script = "boardScript W c (\<lambda>xs. sort_Slice xs (cardLess W))
                                             (\<lambda>xs. sort_Slice xs (actionLess W))"]
         exportBoard_script)
qed

subsection \<open>The sorts of the program do what is asked of \<open>sort.Slice\<close>\<close>

lemma shape_Panic:
  assumes shape: "\<And>x y. lessFn x y =
            (case time_Parse W (stamp x) of
               Inl e \<Rightarrow> Panic e
             | Inr a \<Rightarrow> (case time_Parse W (stamp y) of
                           Inl e \<Rightarrow> Panic e
                         | Inr b \<Rightarrow> Ok (Before a b)))"
      and "lessFn x y = Panic e"
  shows "time_Parse W (stamp x) = Inl e \<or> time_Parse W (stamp y) = Inl e"
  using shape[of x y] assms(2) by (auto split: sum.splits)

lemma siftLeft_Panic:
  assumes shape: "\<And>x y. lessFn x y =
            (case time_Parse W (stamp x) of
               Inl e \<Rightarrow> Panic e
             | Inr a \<Rightarrow> (case time_Parse W (stamp y) of
                           Inl e \<Rightarrow> Panic e
                         | Inr b \<Rightarrow> Ok (Before a b)))"
  shows "siftLeft lessFn x left = Panic e \<Longrightarrow>
         \<exists>y \<in> insert x (set left). time_Parse W (stamp y) = Inl e"
proof (induction left)
  case Nil
  then show ?case by simp
next
  case (Cons y left)
  show ?case
  proof (cases "lessFn x y")
    case (Ok b)
    with Cons show ?thesis
      by (cases b) (auto split: result.splits)
  next
    case (Err e')
    with Cons.prems show ?thesis by simp
  next
    case (Panic e')
    with Cons.prems have "e' = e" by simp
    with shape_Panic[of lessFn W stamp x y e, OF shape] Panic show ?thesis
      by auto
  qed
qed

lemma insertionSort_Panic:
  assumes shape: "\<And>x y. lessFn x y =
            (case time_Parse W (stamp x) of
               Inl e \<Rightarrow> Panic e
             | Inr a \<Rightarrow> (case time_Parse W (stamp y) of
                           Inl e \<Rightarrow> Panic e
                         | Inr b \<Rightarrow> Ok (Before a b)))"
  shows "insertionSort lessFn left rest = Panic e \<Longrightarrow>
         \<exists>y \<in> set left \<union> set rest. time_Parse W (stamp y) = Inl e"
proof (induction rest arbitrary: left)
  case Nil
  then show ?case by simp
next
  case (Cons x rest)
  show ?case
  proof (cases "siftLeft lessFn x left")
    case (Ok left')
    have "set left' = insert x (set left)"
      using siftLeft_mset[OF Ok] by (metis set_mset_add_mset_insert set_mset_mset)
    with Cons.IH[of left'] Cons.prems Ok show ?thesis
      by auto
  next
    case (Err e')
    with Cons.prems show ?thesis by simp
  next
    case (Panic e')
    with Cons.prems have "e' = e" by simp
    with siftLeft_Panic[of lessFn W stamp x left e, OF shape] Panic show ?thesis
      by auto
  qed
qed

lemma sort_Slice_sortsBy:
  assumes shape: "\<And>x y. lessFn x y =
            (case time_Parse W (stamp x) of
               Inl e \<Rightarrow> Panic e
             | Inr a \<Rightarrow> (case time_Parse W (stamp y) of
                           Inl e \<Rightarrow> Panic e
                         | Inr b \<Rightarrow> Ok (Before a b)))"
  shows "sortsBy W stamp (\<lambda>xs. sort_Slice xs lessFn)"
  unfolding sortsBy_def
proof (intro allI conjI impI)
  fix xs :: "'a list"
  assume "length xs \<le> 1"
  then show "sort_Slice xs lessFn = Ok xs"
    by (rule sort_Slice_short)
next
  fix xs :: "'a list"
  assume all: "list_all (\<lambda>x. parses W (stamp x)) xs"
  from sort_Slice_total[of lessFn W stamp xs, OF shape all]
  obtain ys where ys: "sort_Slice xs lessFn = Ok ys" ..
  from sort_Slice_Ok(1,2)[of lessFn W stamp xs ys, OF shape ys] ys
  show "\<exists>ys. sort_Slice xs lessFn = Ok ys \<and> mset ys = mset xs
          \<and> sorted_wrt (\<lambda>a b. stampLe W (stamp a) (stamp b)) ys"
    by blast
next
  fix xs :: "'a list"
  assume bad: "2 \<le> length xs \<and> \<not> list_all (\<lambda>x. parses W (stamp x)) xs"
  with sort_Slice_Panic_iff[of lessFn W stamp xs, OF shape]
  obtain e where e: "sort_Slice xs lessFn = Panic e"
    by blast
  then have "insertionSort lessFn [] xs = Panic e"
    by (simp add: sort_Slice_def)
  from insertionSort_Panic[of lessFn W stamp "[]" xs e, OF shape this] e
  show "\<exists>x \<in> set xs. \<exists>e. time_Parse W (stamp x) = Inl e \<and> sort_Slice xs lessFn = Panic e"
    by auto
qed

lemma cards_sortsBy: "sortsBy W card_DateLastActivity (\<lambda>xs. sort_Slice xs (cardLess W))"
  by (rule sort_Slice_sortsBy) (rule cardLess_shape)

lemma actions_sortsBy: "sortsBy W action_Date (\<lambda>xs. sort_Slice xs (actionLess W))"
  by (rule sort_Slice_sortsBy) (rule actionLess_shape)

lemma sortsBy_short: "sortsBy W stamp srt \<Longrightarrow> length xs \<le> 1 \<Longrightarrow> srt xs = Ok xs"
  by (simp add: sortsBy_def)

text \<open>
  C8. One board \<open>B1\<close> with the list \<open>Done\<close> holding the card \<open>Fix bug\<close> (last activity
  \<open>2024-01-05T10:00:00Z\<close>, no labels, no members, description \<open>Fixed it\<close>, no attachments,
  no comments, the checklist \<open>QA\<close> with \<open>Test\<close> complete and \<open>Deploy\<close> incomplete), exported
  with every show flag set: the run returns without an error and prints exactly the date
  header, \<open>### B1\<close>, the title line with the date \<open>2024-01-05\<close>, \<open>##### - **[]**\<close>, the
  description and an empty line, and the checklist \<open>QA\<close> with \<open>- [x] Test\<close>, \<open>- [ ] Deploy\<close>
  and an empty line. The two library facts used are that the timestamp parses and that
  its date is formatted as \<open>2024-01-05\<close>.
\<close>

theorem end_to_end_scenario:
  assumes "time_Parse W ''2024-01-05T10:00:00Z'' = Inr t"
      and "time_Format W t = ''2024-01-05''"
      and "trello_NewAuthClient W (GlobalString_key c) (GlobalString_token c) = Inr client"
      and "StringSlice_board_id c = [boardId]"
      and "client_Board client boardId = Inr (boardB1 url)"
      and "String_list_filter c = ''Done''"
      and "Bool_show_labels_and_members c" and "Bool_show_description c"
      and "Bool_show_attachments c" and "Bool_show_checklists c" and "Bool_show_comments c"
  shows "exportBoards W c =
           (''## '' @ time_Format W (time_Now W) @ ''\<newline>''
            @ ''### B1\<newline>''
            @ ''#### **2024-01-05** [Fix bug]('' @ url @ '')\<newline>''
            @ ''##### - **[]**\<newline>''
            @ ''Fixed it\<newline>\<newline>''
            @ ''QA\<newline>- [x] Test\<newline>- [ ] Deploy\<newline>\<newline>'', Ok ())"
  using assms by (rule scenario_run)

theorem end_to_end_scenario_witness:
  "exportBoards (utcWorld (\<lambda>boardId. Inr (boardB1 ''https://trello.com/c/1'')))
     (allFlags [''b1''])
   = (''## 2024-06-01\<newline>''
      @ ''### B1\<newline>''
      @ ''#### **2024-01-05** [Fix bug](https://trello.com/c/1)\<newline>''
      @ ''##### - **[]**\<newline>''
      @ ''Fixed it\<newline>\<newline>''
      @ ''QA\<newline>- [x] Test\<newline>- [ ] Deploy\<newline>\<newline>'', Ok ())"
  using end_to_end_scenario[of "utcWorld (\<lambda>boardId. Inr (boardB1 ''https://trello.com/c/1''))"
      "Time 1704448800000000000 0" "allFlags [''b1'']"
      "\<lparr> client_Board = (\<lambda>boardId. Inr (boardB1 ''https://trello.com/c/1'')) \<rparr>"
      "''b1''" "''https://trello.com/c/1''"]
  by (simp add: utcWorld_def allFlags_def utc_samples)

subsection \<open>The document of a run\<close>

text \<open>
  C1. Every run prints what the script of the run says and ends as it says, for an order
  of the cards of each list and an order of the comments of each card that are what the
  program asks of \<open>sort.Slice\<close>. The script of the run is the date header \<open>## {today}\<close>, then
  for each board in turn the header \<open>### {board name}\<close> and the scripts of the cards of its
  exported list; the script of a card is its title, whatever the flags, followed by
  labels-and-members, description, attachments, checklists and comments in this order,
  each of the five there if its flag is set and absent if it is not. This holds of the
  runs that fail too: the cards rendered before the failure are rendered in full, and of
  the card at which the run fails the sections before the failing one are.
\<close>

theorem export_sections_in_order:
  "\<exists>srtC srtA.
     sortsBy W card_DateLastActivity srtC \<and> sortsBy W action_Date srtA
     \<and> exportBoards W c = perform (documentScript W c srtC srtA)"
  using exportBoards_script[of W c] cards_sortsBy[of W] actions_sortsBy[of W]
  by blast

theorem export_sections_in_order_witness:
  "exportBoards twoBoardsWorld (noDescription [''b1'', ''b5''])
   = (''## 2024-06-01\<newline>''
      @ ''### B1\<newline>''
      @ ''#### **2024-01-05** [Fix bug](u)\<newline>''
      @ ''##### - **[]**\<newline>''
      @ ''QA\<newline>- [x] Test\<newline>- [ ] Deploy\<newline>\<newline>''
      @ ''### B5\<newline>''
      @ ''#### **2024-01-05** [fix](u)\<newline>''
      @ ''##### `bug` `ui` '', Err (ApiError ''timeout''))"
proof -
  let ?W = twoBoardsWorld
  let ?c = "noDescription [''b1'', ''b5'']"
  from export_sections_in_order[of ?W ?c] obtain srtC srtA
    where srtC: "sortsBy ?W card_DateLastActivity srtC"
      and srtA: "sortsBy ?W action_Date srtA"
      and run: "exportBoards ?W ?c = perform (documentScript ?W ?c srtC srtA)"
    by blast
  have shortC: "\<And>xs. length xs \<le> 1 \<Longrightarrow> srtC xs = Ok xs"
    using srtC by (rule sortsBy_short)
  have shortA: "\<And>xs. length xs \<le> 1 \<Longrightarrow> srtA xs = Ok xs"
    using srtA by (rule sortsBy_short)
  have first: "cardScript ?W ?c srtA (fixBugCard ''u'')
      = [Emit ''#### **2024-01-05** [Fix bug](u)\<newline>'',
         Emit ''##### '', Emit ''- **[]**\<newline>'',
         Emit ''QA\<newline>- [x] Test\<newline>- [ ] Deploy\<newline>\<newline>'']"
    by (simp add: cardScript_def titleSteps_def labelsAndMembersSteps_def attachmentsSteps_def
        checklistsSteps_def commentsSteps_def checklistText_def checkItemLine_def shortA
        noDescription_def fixBugCard_def twoBoardsWorld_def utcWorld_def utc_samples)
  have second: "cardScript ?W ?c srtA labelledCard
      = [Emit ''#### **2024-01-05** [fix](u)\<newline>'',
         Emit ''##### '', Emit ''`bug` '', Emit ''`ui` '', Return (ApiError ''timeout'')]
        @ attachmentsSteps labelledCard @ checklistsSteps labelledCard
        @ commentsSteps ?W srtA labelledCard"
    by (simp add: cardScript_def titleSteps_def labelsAndMembersSteps_def
        noDescription_def labelledCard_def stampedCard_def twoBoardsWorld_def utcWorld_def
        utc_samples)
  have b1: "boardScript ?W ?c srtC srtA (boardB1 ''u'')
      = Emit ''### B1\<newline>'' # cardScript ?W ?c srtA (fixBugCard ''u'')"
    by (simp add: boardScript_def boardB1_def noDescription_def shortC)
  have b5: "boardScript ?W ?c srtC srtA halfBoard
      = Emit ''### B5\<newline>'' # cardScript ?W ?c srtA labelledCard"
    by (simp add: boardScript_def halfBoard_def noDescription_def shortC)
  have doc: "documentScript ?W ?c srtC srtA
      = Emit ''## 2024-06-01\<newline>''
        # boardScript ?W ?c srtC srtA (boardB1 ''u'') @ boardScript ?W ?c srtC srtA halfBoard"
    by (simp add: documentScript_def noDescription_def twoBoardsWorld_def utcWorld_def
        utc_samples)
  show ?thesis
    unfolding run doc b1 b5 first second by simp
qed

subsection \<open>Order of the cards\<close>

text \<open>
  C3. Whenever \<open>getCards\<close> returns, its result holds exactly the cards the client delivered
  for the list, in ascending order of their last-activity timestamps (any two of them
  parse, and the later in the sequence is not before the earlier), whatever the order of
  delivery; it does return when every timestamp parses; and a board exported without an
  error prints its cards in that order.
\<close>

theorem cards_ascending:
  "(getCards W l = Ok cs \<longrightarrow>
      (\<exists>cards. list_Cards l = Inr cards \<and> mset cs = mset cards)
      \<and> sorted_wrt (\<lambda>a b. stampLe W (card_DateLastActivity a) (card_DateLastActivity b)) cs)
   \<and> (list_Cards l = Inr cards
        \<and> list_all (\<lambda>crd. parses W (card_DateLastActivity crd)) cards \<longrightarrow>
      (\<exists>cs. getCards W l = Ok cs))
   \<and> (snd (exportBoard W c board) = Ok () \<longrightarrow>
      fst (exportBoard W c board)
        = ''### '' @ board_Name board @ ''\<newline>''
          @ concat (map (cardSections W c) (cardsOf W c board))
      \<and> sorted_wrt (\<lambda>a b. stampLe W (card_DateLastActivity a) (card_DateLastActivity b))
          (cardsOf W c board)
      \<and> (\<exists>l cards. exportedList c board = Some l \<and> list_Cards l = Inr cards
            \<and> mset (cardsOf W c board) = mset cards))"
proof (intro conjI impI)
  assume ok: "getCards W l = Ok cs"
  from getCards_Ok(1)[OF ok] show "\<exists>cards. list_Cards l = Inr cards \<and> mset cs = mset cards"
    by blast
  from getCards_Ok(2)[OF ok]
  show "sorted_wrt (\<lambda>a b. stampLe W (card_DateLastActivity a) (card_DateLastActivity b)) cs" .
next
  assume "list_Cards l = Inr cards \<and> list_all (\<lambda>crd. parses W (card_DateLastActivity crd)) cards"
  then show "\<exists>cs. getCards W l = Ok cs"
    using getCards_total by blast
next
  assume ok: "snd (exportBoard W c board) = Ok ()"
  from exportBoard_out[OF ok]
  show "fst (exportBoard W c board)
        = ''### '' @ board_Name board @ ''\<newline>''
          @ concat (map (cardSections W c) (cardsOf W c board))"
    by (simp add: boardSection_def)
  from ok obtain l' cs' where l': "getList board (String_list_filter c) = Ok l'"
    and cs': "getCards W l' = Ok cs'"
    by (auto simp: exportBoard_cases split: result.splits)
  then have eq: "cardsOf W c board = cs'"
    by (simp add: cardsOf_def)
  from getCards_Ok(2)[OF cs'] eq
  show "sorted_wrt (\<lambda>a b. stampLe W (card_DateLastActivity a) (card_DateLastActivity b))
          (cardsOf W c board)"
    by simp
  from getCards_Ok(1)[OF cs'] l' eq
  show "\<exists>l cards. exportedList c board = Some l \<and> list_Cards l = Inr cards
            \<and> mset (cardsOf W c board) = mset cards"
    by (auto simp: getList_Ok_iff)
qed

lemma getCards_unsorted:
  "getCards (utcWorld boards) unsortedList
   = Ok [stampedCard ''jan'' ''2024-01-05T10:00:00Z'',
         stampedCard ''feb'' ''2024-02-01T12:30:00Z'',
         stampedCard ''mar'' ''2024-03-01T00:00:00Z'']"
  by (simp add: getCards_def unsortedList_def threeCards_def sort_Slice_def cardLess_def
      stampedCard_def utcWorld_def utc_samples Before_def)

lemma unsortedBoard_clean: "boardClean (utcWorld boards) (titlesOnly ids) unsortedBoard"
  by (simp add: boardClean_def exportedList_def unsortedBoard_def unsortedList_def threeCards_def
      titlesOnly_def cardClean_def parses_def stampedCard_def utcWorld_def utc_samples)

theorem cards_ascending_witness:
  "getCards (utcWorld (\<lambda>boardId. Inr unsortedBoard)) unsortedList
     = Ok [stampedCard ''jan'' ''2024-01-05T10:00:00Z'',
           stampedCard ''feb'' ''2024-02-01T12:30:00Z'',
           stampedCard ''mar'' ''2024-03-01T00:00:00Z'']
   \<and> mset [stampedCard ''jan'' ''2024-01-05T10:00:00Z'',
            stampedCard ''feb'' ''2024-02-01T12:30:00Z'',
            stampedCard ''mar'' ''2024-03-01T00:00:00Z''] = mset threeCards
   \<and> sorted_wrt (\<lambda>a b. stampLe (utcWorld (\<lambda>boardId. Inr unsortedBoard))
                         (card_DateLastActivity a) (card_DateLastActivity b))
        [stampedCard ''jan'' ''2024-01-05T10:00:00Z'',
         stampedCard ''feb'' ''2024-02-01T12:30:00Z'',
         stampedCard ''mar'' ''2024-03-01T00:00:00Z'']
   \<and> exportBoard (utcWorld (\<lambda>boardId. Inr unsortedBoard)) (titlesOnly [''b4'']) unsortedBoard
     = (''### B4\<newline>''
        @ ''#### **2024-01-05** [jan](u)\<newline>''
        @ ''#### **2024-02-01** [feb](u)\<newline>''
        @ ''#### **2024-03-01** [mar](u)\<newline>'', Ok ())"
proof -
  let ?W = "utcWorld (\<lambda>boardId. Inr unsortedBoard)"
  let ?c = "titlesOnly [''b4'']"
  let ?cs = "[stampedCard ''jan'' ''2024-01-05T10:00:00Z'',
              stampedCard ''feb'' ''2024-02-01T12:30:00Z'',
              stampedCard ''mar'' ''2024-03-01T00:00:00Z'']"
  note inst = cards_ascending[of ?W unsortedList ?cs threeCards ?c unsortedBoard]
  have run: "getCards ?W unsortedList = Ok ?cs"
    by (rule getCards_unsorted)
  have delivered: "list_Cards unsortedList = Inr threeCards"
    by (simp add: unsortedList_def)
  from inst run delivered have perm: "mset ?cs = mset threeCards"
    and sorted: "sorted_wrt (\<lambda>a b. stampLe ?W (card_DateLastActivity a) (card_DateLastActivity b)) ?cs"
    by auto
  have ok: "snd (exportBoard ?W ?c unsortedBoard) = Ok ()"
    by (simp add: exportBoard_Ok_iff unsortedBoard_clean)
  have cardsOf: "cardsOf ?W ?c unsortedBoard = ?cs"
    by (simp add: cardsOf_def getList_def unsortedBoard_def titlesOnly_def
        getCards_unsorted[unfolded unsortedList_def] unsortedList_def)
  from inst ok have "fst (exportBoard ?W ?c unsortedBoard)
      = ''### '' @ board_Name unsortedBoard @ ''\<newline>''
        @ concat (map (cardSections ?W ?c) (cardsOf ?W ?c unsortedBoard))"
    by blast
  moreover have "board_Name unsortedBoard = ''B4''"
    by (simp add: unsortedBoard_def)
  moreover have "concat (map (cardSections ?W ?c) ?cs)
      = ''#### **2024-01-05** [jan](u)\<newline>''
        @ ''#### **2024-02-01** [feb](u)\<newline>''
        @ ''#### **2024-03-01** [mar](u)\<newline>''"
    by (simp add: cardSections_def titleBlock_def titlesOnly_def stampedCard_def utcWorld_def
        utc_samples)
  ultimately have "fst (exportBoard ?W ?c unsortedBoard)
      = ''### B4\<newline>''
        @ ''#### **2024-01-05** [jan](u)\<newline>''
        @ ''#### **2024-02-01** [feb](u)\<newline>''
        @ ''#### **2024-03-01** [mar](u)\<newline>''"
    by (simp add: cardsOf)
  with ok have out: "exportBoard ?W ?c unsortedBoard
      = (''### B4\<newline>''
        @ ''#### **2024-01-05** [jan](u)\<newline>''
        @ ''#### **2024-02-01** [feb](u)\<newline>''
        @ ''#### **2024-03-01** [mar](u)\<newline>'', Ok ())"
    by (simp add: prod_eq_iff)
  from run perm sorted out show ?thesis
    by blast
qed

subsection \<open>The comments of a card\<close>

text \<open>
  C4. Whenever \<open>getCardComments\<close> returns, its result holds exactly the delivered actions
  of type \<open>commentCard\<close> (every other action is dropped), in ascending order of their
  timestamps, and it does return when the timestamps of those actions parse. A card
  exported without an error with the comments flag set prints its other sections and
  then the blocks of exactly these comments in ascending order, and nothing else. And
  whether it fails or not, a card prints what its script says, in which the comments are
  the delivered \<open>commentCard\<close> actions and no other, in an order that is what the program
  asks of \<open>sort.Slice\<close>.
\<close>

theorem comments_filtered_ascending:
  "(getCardComments W crd = Ok cs \<longrightarrow>
      (\<exists>as. card_Actions crd = Inr as
         \<and> mset cs = mset (filter (\<lambda>a. action_Type a = ''commentCard'') as))
      \<and> sorted_wrt (\<lambda>a b. stampLe W (action_Date a) (action_Date b)) cs)
   \<and> (card_Actions crd = Inr as
        \<and> list_all (\<lambda>a. parses W (action_Date a))
            (filter (\<lambda>a. action_Type a = ''commentCard'') as) \<longrightarrow>
      (\<exists>cs. getCardComments W crd = Ok cs))
   \<and> (Bool_show_comments c \<and> snd (exportCard W c crd) = Ok () \<longrightarrow>
      (\<exists>cs. mset cs = mset (filter (\<lambda>a. action_Type a = ''commentCard'')
                               (answer (card_Actions crd)))
         \<and> sorted_wrt (\<lambda>a b. stampLe W (action_Date a) (action_Date b)) cs
         \<and> fst (exportCard W c crd)
           = titleBlock W crd
             @ (if Bool_show_labels_and_members c then labelsAndMembersBlock crd else [])
             @ (if Bool_show_description c then descriptionBlock crd else [])
             @ (if Bool_show_attachments c then attachmentsBlock crd else [])
             @ (if Bool_show_checklists c then checklistsBlock crd else [])
             @ concat (map (commentText W) cs)))
   \<and> (\<exists>srtA. sortsBy W action_Date srtA
         \<and> exportCard W c crd = perform (cardScript W c srtA crd))"
proof (intro conjI impI)
  assume ok: "getCardComments W crd = Ok cs"
  from getCardComments_Ok(1)[OF ok] obtain as' where as': "card_Actions crd = Inr as'"
    by (cases "card_Actions crd") (auto simp: answered_def)
  with getCardComments_Ok(2)[OF ok]
  show "\<exists>as. card_Actions crd = Inr as
         \<and> mset cs = mset (filter (\<lambda>a. action_Type a = ''commentCard'') as)"
    by (simp add: commentActions_def answer_def)
  from getCardComments_Ok(3)[OF ok]
  show "sorted_wrt (\<lambda>a b. stampLe W (action_Date a) (action_Date b)) cs" .
next
  assume "card_Actions crd = Inr as
        \<and> list_all (\<lambda>a. parses W (action_Date a))
            (filter (\<lambda>a. action_Type a = ''commentCard'') as)"
  then have "card_Actions crd = Inr as"
    and "list_all (\<lambda>a. parses W (action_Date a)) (commentActions crd)"
    by (simp_all add: commentActions_def answer_def)
  then show "\<exists>cs. getCardComments W crd = Ok cs"
    by (rule getCardComments_total)
next
  assume "Bool_show_comments c \<and> snd (exportCard W c crd) = Ok ()"
  then have flag: "Bool_show_comments c" and ok: "snd (exportCard W c crd) = Ok ()"
    by simp_all
  from ok have clean: "cardClean W c crd"
    by (simp add: exportCard_Ok_iff)
  with flag obtain as' where "card_Actions crd = Inr as'"
    and "list_all (\<lambda>a. parses W (action_Date a)) (commentActions crd)"
    by (cases "card_Actions crd") (auto simp: cardClean_def answered_def)
  then obtain cs' where cs': "getCardComments W crd = Ok cs'"
    using getCardComments_total by blast
  from exportCard_out[OF ok] flag cs'
  have "fst (exportCard W c crd)
        = titleBlock W crd
          @ (if Bool_show_labels_and_members c then labelsAndMembersBlock crd else [])
          @ (if Bool_show_description c then descriptionBlock crd else [])
          @ (if Bool_show_attachments c then attachmentsBlock crd else [])
          @ (if Bool_show_checklists c then checklistsBlock crd else [])
          @ concat (map (commentText W) cs')"
    by (simp add: cardSections_def commentsBlock_def commentsOf_def)
  with getCardComments_Ok(2,3)[OF cs']
  show "\<exists>cs. mset cs = mset (filter (\<lambda>a. action_Type a = ''commentCard'')
                               (answer (card_Actions crd)))
         \<and> sorted_wrt (\<lambda>a b. stampLe W (action_Date a) (action_Date b)) cs
         \<and> fst (exportCard W c crd)
           = titleBlock W crd
             @ (if Bool_show_labels_and_members c then labelsAndMembersBlock crd else [])
             @ (if Bool_show_description c then descriptionBlock crd else [])
             @ (if Bool_show_attachments c then attachmentsBlock crd else [])
             @ (if Bool_show_checklists c then checklistsBlock crd else [])
             @ concat (map (commentText W) cs)"
    unfolding commentActions_def by blast
next
  from exportCard_script[of W c crd] actions_sortsBy[of W]
  show "\<exists>srtA. sortsBy W action_Date srtA
         \<and> exportCard W c crd = perform (cardScript W c srtA crd)"
    by blast
qed

lemma getCardComments_mixed:
  "getCardComments (utcWorld boards) commentedCard
   = Ok [sampleAction ''commentCard'' ''2024-01-05T10:00:00Z'' ''first'',
         sampleAction ''commentCard'' ''2024-02-01T12:30:00Z'' ''second'']"
  by (simp add: getCardComments_def commentedCard_def mixedActions_def stampedCard_def
      commentCardAction_def sort_Slice_def actionLess_def sampleAction_def utcWorld_def
      utc_samples Before_def)

lemma pair_of_mset:
  assumes "mset xs = mset [a, b]"
  shows "xs = [a, b] \<or> xs = [b, a]"
proof -
  from assms have "length xs = 2"
    by (metis length_Cons list.size(3) numeral_2_eq_2 size_mset)
  then obtain x y where xs: "xs = [x, y]"
    by (cases xs; cases "tl xs") auto
  with assms show ?thesis
    by (auto simp: add_eq_conv_ex)
qed

theorem comments_filtered_ascending_witness:
  "getCardComments offlineWorld commentedCard
     = Ok [sampleAction ''commentCard'' ''2024-01-05T10:00:00Z'' ''first'',
           sampleAction ''commentCard'' ''2024-02-01T12:30:00Z'' ''second'']
   \<and> mset [sampleAction ''commentCard'' ''2024-01-05T10:00:00Z'' ''first'',
            sampleAction ''commentCard'' ''2024-02-01T12:30:00Z'' ''second'']
     = mset (filter (\<lambda>a. action_Type a = ''commentCard'') mixedActions)
   \<and> exportCard offlineWorld (commentsOnly []) commentedCard
     = (''#### **2024-03-01** [talk](u)\<newline>''
        @ ''> **2024-01-05** - **Ann:**\<newline>> first\<newline>\<newline>''
        @ ''> **2024-02-01** - **Ann:**\<newline>> second\<newline>\<newline>'', Ok ())"
proof -
  let ?W = offlineWorld
  let ?c = "commentsOnly []"
  let ?first = "sampleAction ''commentCard'' ''2024-01-05T10:00:00Z'' ''first''"
  let ?second = "sampleAction ''commentCard'' ''2024-02-01T12:30:00Z'' ''second''"
  note inst = comments_filtered_ascending[of ?W commentedCard "[?first, ?second]" mixedActions ?c]
  have run: "getCardComments ?W commentedCard = Ok [?first, ?second]"
    unfolding offlineWorld_def by (rule getCardComments_mixed)
  have delivered: "card_Actions commentedCard = Inr mixedActions"
    by (simp add: commentedCard_def)
  have kept: "filter (\<lambda>a. action_Type a = ''commentCard'') mixedActions = [?second, ?first]"
    by (simp add: mixedActions_def sampleAction_def)
  from inst run delivered
  have perm: "mset [?first, ?second]
      = mset (filter (\<lambda>a. action_Type a = ''commentCard'') mixedActions)"
    by auto
  have flag: "Bool_show_comments ?c"
    by (simp add: commentsOnly_def)
  have clean: "cardClean ?W ?c commentedCard"
    by (simp add: cardClean_def commentsOnly_def commentedCard_def stampedCard_def
        commentActions_def answer_def answered_def mixedActions_def sampleAction_def
        parses_def offlineWorld_def utcWorld_def utc_samples)
  then have ok: "snd (exportCard ?W ?c commentedCard) = Ok ()"
    by (simp add: exportCard_Ok_iff)
  from inst flag ok obtain cs
    where cs: "mset cs = mset (filter (\<lambda>a. action_Type a = ''commentCard'')
                                 (answer (card_Actions commentedCard)))"
      and sorted: "sorted_wrt (\<lambda>a b. stampLe ?W (action_Date a) (action_Date b)) cs"
      and out: "fst (exportCard ?W ?c commentedCard)
           = titleBlock ?W commentedCard
             @ (if Bool_show_labels_and_members ?c then labelsAndMembersBlock commentedCard else [])
             @ (if Bool_show_description ?c then descriptionBlock commentedCard else [])
             @ (if Bool_show_attachments ?c then attachmentsBlock commentedCard else [])
             @ (if Bool_show_checklists ?c then checklistsBlock commentedCard else [])
             @ concat (map (commentText ?W) cs)"
    by blast
  from cs delivered kept have "mset cs = mset [?second, ?first]"
    by (simp add: answer_def)
  then have "cs = [?second, ?first] \<or> cs = [?first, ?second]"
    by (rule pair_of_mset)
  moreover have "\<not> stampLe ?W (action_Date ?second) (action_Date ?first)"
    by (simp add: stampLe_def sampleAction_def offlineWorld_def utcWorld_def utc_samples
        Before_def)
  ultimately have order: "cs = [?first, ?second]"
    using sorted by auto
  have title: "titleBlock ?W commentedCard = ''#### **2024-03-01** [talk](u)\<newline>''"
    by (simp add: titleBlock_def commentedCard_def stampedCard_def offlineWorld_def
        utcWorld_def utc_samples)
  have off: "\<not> Bool_show_labels_and_members ?c" "\<not> Bool_show_description ?c"
    "\<not> Bool_show_attachments ?c" "\<not> Bool_show_checklists ?c"
    by (simp_all add: commentsOnly_def)
  have blocks: "commentText ?W ?first = ''> **2024-01-05** - **Ann:**\<newline>> first\<newline>\<newline>''"
    "commentText ?W ?second = ''> **2024-02-01** - **Ann:**\<newline>> second\<newline>\<newline>''"
    by (simp_all add: commentText_def quoted_def sampleAction_def offlineWorld_def
        utcWorld_def utc_samples)
  from out order title off blocks
  have "fst (exportCard ?W ?c commentedCard)
      = ''#### **2024-03-01** [talk](u)\<newline>''
        @ ''> **2024-01-05** - **Ann:**\<newline>> first\<newline>\<newline>''
        @ ''> **2024-02-01** - **Ann:**\<newline>> second\<newline>\<newline>''"
    by simp
  with ok have "exportCard ?W ?c commentedCard
      = (''#### **2024-03-01** [talk](u)\<newline>''
        @ ''> **2024-01-05** - **Ann:**\<newline>> first\<newline>\<newline>''
        @ ''> **2024-02-01** - **Ann:**\<newline>> second\<newline>\<newline>'', Ok ())"
    by (simp add: prod_eq_iff)
  with run perm show ?thesis
    by blast
qed

subsection \<open>Quoting a comment\<close>

lemma strings_Join_cons_char:
  "strings_Join ((ch # l) # ls) sep = ch # strings_Join (l # ls) sep"
  by (cases ls) simp_all

lemma strings_Join_empty_first:
  "ls \<noteq> [] \<Longrightarrow> strings_Join ([] # ls) sep = sep @ strings_Join ls sep"
  by (cases ls) simp_all

lemma join_splitLines: "strings_Join (splitLines s) ''\<newline>'' = s"
proof (induction s)
  case Nil
  show ?case by simp
next
  case (Cons ch s)
  obtain l ls where sp: "splitLines s = l # ls"
    using splitLines_not_Nil[of s] by (cases "splitLines s") auto
  with Cons.IH show ?case
    by (simp add: strings_Join_cons_char strings_Join_empty_first del: strings_Join.simps)
qed

lemma splitLines_no_newline: "l \<in> set (splitLines s) \<Longrightarrow> CHR ''\<newline>'' \<notin> set l"
proof (induction s arbitrary: l)
  case Nil
  then show ?case by simp
next
  case (Cons ch s)
  obtain l' ls where sp: "splitLines s = l' # ls"
    using splitLines_not_Nil[of s] by (cases "splitLines s") auto
  with Cons show ?case
    by (auto split: if_splits)
qed

text \<open>
  C6. A comment is printed as its header line, then \<open>> \<close> and the body with every newline
  rewritten to a newline followed by \<open>> \<close>, then an empty line. That text is the lines of
  the body, each prefixed by \<open>> \<close> and ended by a newline, followed by one more newline;
  the lines of the body are the pieces between its newlines (joined by newlines they give
  the body back, and none of them holds a newline).
\<close>

theorem comment_lines_quoted:
  "(time_Parse W (action_Date a) = Inr t \<longrightarrow>
      printCardComment W a
        = (''> **'' @ time_Format W t @ ''** - **''
           @ member_FullName (action_MemberCreator a) @ '':**\<newline>''
           @ ''> '' @ strings_Replace (action_Data_Text a) ''\<newline>'' ''\<newline>> '' @ ''\<newline>\<newline>'', Ok ()))
   \<and> ''> '' @ strings_Replace body ''\<newline>'' ''\<newline>> '' @ ''\<newline>\<newline>''
       = concat (map (\<lambda>l. ''> '' @ l @ ''\<newline>'') (splitLines body)) @ ''\<newline>''
   \<and> strings_Join (splitLines body) ''\<newline>'' = body
   \<and> (\<forall>l \<in> set (splitLines body). CHR ''\<newline>'' \<notin> set l)"
proof (intro conjI impI ballI)
  assume "time_Parse W (action_Date a) = Inr t"
  then show "printCardComment W a
        = (''> **'' @ time_Format W t @ ''** - **''
           @ member_FullName (action_MemberCreator a) @ '':**\<newline>''
           @ ''> '' @ strings_Replace (action_Data_Text a) ''\<newline>'' ''\<newline>> '' @ ''\<newline>\<newline>'', Ok ())"
    by (simp add: printCardComment_def Printf_def del: strings_Replace.simps)
next
  show "''> '' @ strings_Replace body ''\<newline>'' ''\<newline>> '' @ ''\<newline>\<newline>''
       = concat (map (\<lambda>l. ''> '' @ l @ ''\<newline>'') (splitLines body)) @ ''\<newline>''"
    using quoted_Replace[of body] by (simp add: quoted_def del: strings_Replace.simps)
next
  show "strings_Join (splitLines body) ''\<newline>'' = body"
    by (rule join_splitLines)
next
  fix l
  assume "l \<in> set (splitLines body)"
  then show "CHR ''\<newline>'' \<notin> set l"
    by (rule splitLines_no_newline)
qed

theorem comment_lines_quoted_witness:
  "printCardComment (utcWorld (\<lambda>boardId. Inl (ApiError ''unused'')))
     (sampleAction ''commentCard'' ''2024-01-05T10:00:00Z'' ''one\<newline>two\<newline>\<newline>four'')
   = (''> **2024-01-05** - **Ann:**\<newline>> one\<newline>> two\<newline>> \<newline>> four\<newline>\<newline>'', Ok ())
   \<and> splitLines ''one\<newline>two\<newline>\<newline>four'' = [''one'', ''two'', [], ''four'']
   \<and> CHR ''\<newline>'' \<notin> set ''two''"
proof -
  let ?W = "utcWorld (\<lambda>boardId. Inl (ApiError ''unused''))"
  let ?a = "sampleAction ''commentCard'' ''2024-01-05T10:00:00Z'' ''one\<newline>two\<newline>\<newline>four''"
  have parse: "time_Parse ?W (action_Date ?a) = Inr (Time 1704448800000000000 0)"
    by (simp add: utcWorld_def sampleAction_def utc_samples)
  have lines: "splitLines ''one\<newline>two\<newline>\<newline>four'' = [''one'', ''two'', [], ''four'']"
    by simp
  note inst = comment_lines_quoted[of ?W ?a "Time 1704448800000000000 0" "''one\<newline>two\<newline>\<newline>four''"]
  from inst parse have "printCardComment ?W ?a
        = (''> **'' @ time_Format ?W (Time 1704448800000000000 0) @ ''** - **''
           @ member_FullName (action_MemberCreator ?a) @ '':**\<newline>''
           @ ''> '' @ strings_Replace (action_Data_Text ?a) ''\<newline>'' ''\<newline>> '' @ ''\<newline>\<newline>'', Ok ())"
    by blast
  moreover have "time_Format ?W (Time 1704448800000000000 0) = ''2024-01-05''"
    by (simp add: utcWorld_def utc_samples)
  moreover have "member_FullName (action_MemberCreator ?a) = ''Ann''"
    and "action_Data_Text ?a = ''one\<newline>two\<newline>\<newline>four''"
    by (simp_all add: sampleAction_def)
  moreover have "strings_Replace ''one\<newline>two\<newline>\<newline>four'' ''\<newline>'' ''\<newline>> ''
                 = ''one\<newline>> two\<newline>> \<newline>> four''"
    by simp
  ultimately have out: "printCardComment ?W ?a
      = (''> **2024-01-05** - **Ann:**\<newline>> one\<newline>> two\<newline>> \<newline>> four\<newline>\<newline>'', Ok ())"
    by (simp del: strings_Replace.simps)
  from inst have "\<forall>l \<in> set (splitLines ''one\<newline>two\<newline>\<newline>four''). CHR ''\<newline>'' \<notin> set l"
    by blast
  moreover have "''two'' \<in> set (splitLines ''one\<newline>two\<newline>\<newline>four'')"
    by (simp add: lines del: splitLines.simps)
  ultimately have "CHR ''\<newline>'' \<notin> set ''two''"
    by (rule bspec)
  with out lines show ?thesis
    by blast
qed

subsection \<open>A member fetch that fails\<close>

text \<open>
  C9. When the member fetch of a card fails, \<open>printCardLabelsAndMembers\<close> has written the
  prefix \<open>##### \<close> and every label name in backticks, and returns the error: the closing
  \<open>- **[...]**\<close> is not written. A run that shows labels and members then ends at this
  card with that error, the card's title and the partial label text being the last of
  its output.
\<close>

theorem labels_written_before_member_failure:
  assumes "card_Members crd = Inl e"
  shows "printCardLabelsAndMembers crd
           = (''##### '' @ concat (map (\<lambda>l. ''`'' @ label_Name l @ ''` '') (card_Labels crd)),
              Err e)
       \<and> (Bool_show_labels_and_members c \<and> time_Parse W (card_DateLastActivity crd) = Inr t \<longrightarrow>
            forEach (exportCard W c) (crd # rest)
              = (''#### **'' @ time_Format W t @ ''** ['' @ card_Name crd
                   @ '']('' @ card_Url crd @ '')\<newline>''
                 @ ''##### '' @ concat (map (\<lambda>l. ''`'' @ label_Name l @ ''` '') (card_Labels crd)),
                 Err e))"
proof (intro conjI impI)
  from printCardLabelsAndMembers_Err[OF assms]
  show part: "printCardLabelsAndMembers crd
           = (''##### '' @ concat (map (\<lambda>l. ''`'' @ label_Name l @ ''` '') (card_Labels crd)),
              Err e)"
    by (simp add: labelsText_def)
  assume "Bool_show_labels_and_members c \<and> time_Parse W (card_DateLastActivity crd) = Inr t"
  then have flag: "Bool_show_labels_and_members c"
    and parse: "time_Parse W (card_DateLastActivity crd) = Inr t"
    by simp_all
  from printCardTitle_Ok[OF parse] parse
  have title: "printCardTitle W crd
      = (''#### **'' @ time_Format W t @ ''** ['' @ card_Name crd
           @ '']('' @ card_Url crd @ '')\<newline>'', Ok ())"
    by (simp add: titleBlock_def)
  from flag have "exportCard W c crd
      = (''#### **'' @ time_Format W t @ ''** ['' @ card_Name crd
           @ '']('' @ card_Url crd @ '')\<newline>''
         @ ''##### '' @ concat (map (\<lambda>l. ''`'' @ label_Name l @ ''` '') (card_Labels crd)),
         Err e)"
    unfolding exportCard_def title part by simp
  then show "forEach (exportCard W c) (crd # rest)
      = (''#### **'' @ time_Format W t @ ''** ['' @ card_Name crd
           @ '']('' @ card_Url crd @ '')\<newline>''
         @ ''##### '' @ concat (map (\<lambda>l. ''`'' @ label_Name l @ ''` '') (card_Labels crd)),
         Err e)"
    by simp
qed

theorem labels_written_before_member_failure_witness:
  "printCardLabelsAndMembers labelledCard = (''##### `bug` `ui` '', Err (ApiError ''timeout''))
   \<and> forEach (exportCard (utcWorld (\<lambda>boardId. Inl (ApiError ''unused''))) (allFlags []))
        [labelledCard, stampedCard ''next'' ''2024-02-01T12:30:00Z'']
     = (''#### **2024-01-05** [fix](u)\<newline>##### `bug` `ui` '', Err (ApiError ''timeout''))"
proof -
  let ?W = "utcWorld (\<lambda>boardId. Inl (ApiError ''unused''))"
  have fails: "card_Members labelledCard = Inl (ApiError ''timeout'')"
    by (simp add: labelledCard_def)
  have flag: "Bool_show_labels_and_members (allFlags [])"
    by (simp add: allFlags_def)
  have parse: "time_Parse ?W (card_DateLastActivity labelledCard)
               = Inr (Time 1704448800000000000 0)"
    by (simp add: utcWorld_def labelledCard_def stampedCard_def utc_samples)
  have fmt: "time_Format ?W (Time 1704448800000000000 0) = ''2024-01-05''"
    by (simp add: utcWorld_def utc_samples)
  have fields: "card_Name labelledCard = ''fix''" "card_Url labelledCard = ''u''"
    "concat (map (\<lambda>l. ''`'' @ label_Name l @ ''` '') (card_Labels labelledCard)) = ''`bug` `ui` ''"
    by (simp_all add: labelledCard_def stampedCard_def)
  from labels_written_before_member_failure[OF fails, of "allFlags []" ?W
      "Time 1704448800000000000 0" "[stampedCard ''next'' ''2024-02-01T12:30:00Z'']"]
    flag parse
  show ?thesis
    by (simp only: fmt fields) simp
qed

subsection \<open>Failures\<close>

lemma snd_andThen_Panic:
  "snd (andThen m k) = Panic e \<longleftrightarrow> snd m = Panic e \<or> (\<exists>a. snd m = Ok a \<and> snd (k a) = Panic e)"
  by (cases m; cases "snd m") (auto simp: andThen_def split: prod.splits)

lemma forEach_Panic:
  "snd (forEach body xs) = Panic e \<Longrightarrow> list_ex (\<lambda>x. snd (body x) = Panic e) xs"
  by (induction xs) (auto simp: skip_def snd_andThen_Panic)

lemma printCardTitle_not_Panic: "snd (printCardTitle W crd) \<noteq> Panic e"
  by (cases "time_Parse W (card_DateLastActivity crd)")
     (simp_all add: printCardTitle_Ok printCardTitle_Err)

lemma labels_step_not_Panic:
  "snd (if Bool_show_labels_and_members c then printCardLabelsAndMembers crd else skip) \<noteq> Panic e"
  by (cases "card_Members crd")
     (simp_all add: printCardLabelsAndMembers_Ok printCardLabelsAndMembers_Err skip_def)

lemma attachments_step_not_Panic:
  "snd (if Bool_show_attachments c
        then andThen (silent (getCardAttachments crd)) (forEach printCardAttachment)
        else skip) \<noteq> Panic e"
  by (cases "card_Attachments crd") (simp_all add: attachments_Ok attachments_Err skip_def)

lemma checklists_step_not_Panic:
  "snd (if Bool_show_checklists c
        then andThen (silent (getCardCheckLists crd)) (forEach printCardChecklist)
        else skip) \<noteq> Panic e"
  by (cases "card_Checklists crd") (simp_all add: checklists_Ok checklists_Err skip_def)

lemma printCardComment_not_Panic: "snd (printCardComment W a) \<noteq> Panic e"
  by (cases "time_Parse W (action_Date a)")
     (simp_all add: printCardComment_Ok printCardComment_Err)

lemma comments_step_Panic:
  assumes "snd (if Bool_show_comments c
                then andThen (silent (getCardComments W crd)) (forEach (printCardComment W))
                else skip) = Panic e"
  shows "Bool_show_comments c \<and> commentsSortFault W crd"
proof -
  from assms have flag: "Bool_show_comments c"
    by (cases "Bool_show_comments c") (simp_all add: skip_def)
  with assms
  have run: "snd (andThen (silent (getCardComments W crd)) (forEach (printCardComment W))) = Panic e"
    by simp
  have "\<exists>e'. getCardComments W crd = Panic e'"
  proof (cases "getCardComments W crd")
    case (Ok cs)
    with run have "snd (forEach (printCardComment W) cs) = Panic e"
      by simp
    from forEach_Panic[OF this] show ?thesis
      by (simp add: printCardComment_not_Panic list_ex_iff)
  next
    case (Err e')
    with run show ?thesis by simp
  next
    case (Panic e')
    then show ?thesis by blast
  qed
  with flag show ?thesis
    by (simp add: getCardComments_Panic_iff)
qed

lemma exportCard_Panic:
  assumes "snd (exportCard W c crd) = Panic e"
  shows "Bool_show_comments c \<and> commentsSortFault W crd"
proof -
  from assms
  have "snd (if Bool_show_comments c
             then andThen (silent (getCardComments W crd)) (forEach (printCardComment W))
             else skip) = Panic e"
    unfolding exportCard_def snd_andThen_Panic
    by (auto simp: printCardTitle_not_Panic labels_step_not_Panic description_step
        attachments_step_not_Panic checklists_step_not_Panic)
  then show ?thesis
    by (rule comments_step_Panic)
qed

lemma exportBoard_Panic:
  assumes "snd (exportBoard W c board) = Panic e"
  shows "boardSortFault W c board"
proof (cases "getList board (String_list_filter c)")
  case (Ok l)
  then have el: "exportedList c board = Some l"
    by (simp add: getList_Ok_iff)
  show ?thesis
  proof (cases "getCards W l")
    case cs: (Ok cs)
    from getCards_Ok(1)[OF cs] obtain cards where cards: "list_Cards l = Inr cards"
      and perm: "mset cs = mset cards"
      by blast
    from perm have sets: "set cs = set cards"
      by (metis set_mset_mset)
    from assms Ok cs have "snd (forEach (exportCard W c) cs) = Panic e"
      by (simp add: exportBoard_cases)
    from forEach_Panic[OF this] obtain crd where "crd \<in> set cs"
      and "snd (exportCard W c crd) = Panic e"
      by (auto simp: list_ex_iff)
    with exportCard_Panic[of W c crd e] sets
    have "Bool_show_comments c \<and> list_ex (commentsSortFault W) cards"
      by (auto simp: list_ex_iff)
    with el cards show ?thesis
      by (simp add: boardSortFault_def)
  next
    case (Err e')
    with assms Ok show ?thesis
      by (simp add: exportBoard_cases)
  next
    case (Panic e')
    then obtain cards where "list_Cards l = Inr cards" and "cardsSortFault W cards"
      using getCards_Panic_iff by blast
    with el show ?thesis
      by (simp add: boardSortFault_def)
  qed
next
  case (Err e')
  with assms show ?thesis
    by (simp add: exportBoard_cases)
next
  case (Panic e')
  then show ?thesis
    by (simp add: getList_not_Panic)
qed

lemma exportBoards_Panic:
  assumes "snd (exportBoards W c) = Panic e"
  shows "exportSortFault W c"
proof (cases "trello_NewAuthClient W (GlobalString_key c) (GlobalString_token c)")
  case (Inl e')
  with assms show ?thesis
    by (simp add: exportBoards_cases)
next
  case (Inr client)
  show ?thesis
  proof (cases "getBoards client (StringSlice_board_id c)")
    case (Ok boards)
    with assms Inr have "snd (forEach (exportBoard W c) boards) = Panic e"
      by (simp add: exportBoards_cases)
    from forEach_Panic[OF this] have "list_ex (boardSortFault W c) boards"
      by (auto simp: list_ex_iff dest: exportBoard_Panic)
    with getBoards_Ok_ex[OF Ok, of "boardSortFault W c"] Inr show ?thesis
      by (simp add: exportSortFault_def)
  next
    case (Err e')
    with assms Inr show ?thesis
      by (simp add: exportBoards_cases)
  next
    case (Panic e')
    then show ?thesis
      by (simp add: getBoards_not_Panic)
  qed
qed

lemma brokenBoard_run:
  "exportBoard brokenWorld (titlesOnly ids) brokenBoard
   = (''### B3\<newline>'', Panic (ParseError ''yesterday''))"
proof -
  have lst: "getList brokenBoard ''Done''
             = Ok \<lparr> list_Name = ''Done'',
                    list_Cards = Inr [stampedCard ''good'' ''2024-01-05T10:00:00Z'',
                                      stampedCard ''bad'' ''yesterday''] \<rparr>"
    by (simp add: getList_def brokenBoard_def)
  have cards: "getCards brokenWorld
                 \<lparr> list_Name = ''Done'',
                   list_Cards = Inr [stampedCard ''good'' ''2024-01-05T10:00:00Z'',
                                     stampedCard ''bad'' ''yesterday''] \<rparr>
               = Panic (ParseError ''yesterday'')"
    by (simp add: getCards_def sort_Slice_def cardLess_def stampedCard_def brokenWorld_def
        utcWorld_def utc_samples)
  have name: "board_Name brokenBoard = ''B3''"
    by (simp add: brokenBoard_def)
  have flt: "String_list_filter (titlesOnly ids) = ''Done''"
    by (simp add: titlesOnly_def)
  show ?thesis
    by (simp add: exportBoard_cases flt lst cards name)
qed

lemma brokenWorld_run:
  "exportBoards brokenWorld (titlesOnly [''b3''])
   = (''## 2024-06-01\<newline>### B3\<newline>'', Panic (ParseError ''yesterday''))"
proof -
  have fields: "GlobalString_key (titlesOnly [''b3'']) = ''key''"
    "GlobalString_token (titlesOnly [''b3'']) = ''token''"
    "StringSlice_board_id (titlesOnly [''b3'']) = [''b3'']"
    by (simp_all add: titlesOnly_def)
  have client: "trello_NewAuthClient brokenWorld ''key'' ''token''
                = Inr \<lparr> client_Board = (\<lambda>boardId. Inr brokenBoard) \<rparr>"
    by (simp add: brokenWorld_def utcWorld_def)
  have now: "time_Format brokenWorld (time_Now brokenWorld) = ''2024-06-01''"
    by (simp add: brokenWorld_def utcWorld_def utc_samples)
  show ?thesis
    by (simp add: exportBoards_cases fields client now brokenBoard_run)
qed

text \<open>
  A list delivering two cards, the second with the last-activity text \<open>yesterday\<close>: the
  comparator of \<open>getCards\<close> parses that text first and panics. The run has printed the date
  and board headers, and it ends in the panic, not in a returned error.
\<close>

theorem sort_fault_panics_counterexample:
  "exportBoards brokenWorld (titlesOnly [''b3''])
     = (''## 2024-06-01\<newline>### B3\<newline>'', Panic (ParseError ''yesterday''))
   \<and> snd (exportBoards brokenWorld (titlesOnly [''b3''])) \<noteq> Err (ParseError ''yesterday'')"
  by (simp add: brokenWorld_run)

subsection \<open>Runs that panic\<close>

lemma forEach_append:
  "forEach body (xs @ ys) = andThen (forEach body xs) (\<lambda>_. forEach body ys)"
  by (induction xs)
     (auto simp: skip_def andThen_def prod_eq_iff split: prod.splits result.splits)

lemma labels_step_eq:
  assumes "Bool_show_labels_and_members c \<longrightarrow> answered (card_Members crd)"
  shows "(if Bool_show_labels_and_members c then printCardLabelsAndMembers crd else skip)
         = (if Bool_show_labels_and_members c then labelsAndMembersBlock crd else [], Ok ())"
  using assms labels_step_Ok_iff[of c crd] labels_step_out[of c crd]
  by (simp add: prod_eq_iff)

lemma attachments_step_eq:
  assumes "Bool_show_attachments c \<longrightarrow> answered (card_Attachments crd)"
  shows "(if Bool_show_attachments c
          then andThen (silent (getCardAttachments crd)) (forEach printCardAttachment)
          else skip)
         = (if Bool_show_attachments c then attachmentsBlock crd else [], Ok ())"
  using assms attachments_step_Ok_iff[of c crd] attachments_step_out[of c crd]
  by (simp add: prod_eq_iff)

lemma checklists_step_eq:
  assumes "Bool_show_checklists c \<longrightarrow> answered (card_Checklists crd)"
  shows "(if Bool_show_checklists c
          then andThen (silent (getCardCheckLists crd)) (forEach printCardChecklist)
          else skip)
         = (if Bool_show_checklists c then checklistsBlock crd else [], Ok ())"
  using assms checklists_step_Ok_iff[of c crd] checklists_step_out[of c crd]
  by (simp add: prod_eq_iff)

lemma comments_sort_panics:
  assumes "commentsSortFault W crd"
  shows "\<exists>e. getCardComments W crd = Panic e
           \<and> (\<exists>a \<in> set (commentActions crd). time_Parse W (action_Date a) = Inl e)"
proof -
  from assms have "commentActions crd \<noteq> []"
    by (auto simp: commentsSortFault_def)
  then obtain as where as: "card_Actions crd = Inr as"
    by (cases "card_Actions crd") (auto simp: commentActions_def answer_def)
  from assms actions_sortsBy[of W]
  have "\<exists>x \<in> set (commentActions crd). \<exists>e. time_Parse W (action_Date x) = Inl e
          \<and> sort_Slice (commentActions crd) (actionLess W) = Panic e"
    unfolding sortsBy_def commentsSortFault_def by blast
  with getCardComments_Inr[OF as, of W] show ?thesis
    by auto
qed

lemma card_panics:
  assumes "panicsAtComments W c crd"
  shows "\<exists>e. exportCard W c crd
              = (titleBlock W crd
                 @ (if Bool_show_labels_and_members c then labelsAndMembersBlock crd else [])
                 @ (if Bool_show_description c then descriptionBlock crd else [])
                 @ (if Bool_show_attachments c then attachmentsBlock crd else [])
                 @ (if Bool_show_checklists c then checklistsBlock crd else []), Panic e)
           \<and> (\<exists>a \<in> set (commentActions crd). time_Parse W (action_Date a) = Inl e)"
proof -
  from assms have flag: "Bool_show_comments c"
    and lm: "Bool_show_labels_and_members c \<longrightarrow> answered (card_Members crd)"
    and att: "Bool_show_attachments c \<longrightarrow> answered (card_Attachments crd)"
    and chk: "Bool_show_checklists c \<longrightarrow> answered (card_Checklists crd)"
    and fault: "commentsSortFault W crd"
    by (simp_all add: panicsAtComments_def)
  from assms obtain t where t: "time_Parse W (card_DateLastActivity crd) = Inr t"
    by (auto simp: panicsAtComments_def parses_def split: sum.splits)
  from comments_sort_panics[OF fault] obtain e
    where e: "getCardComments W crd = Panic e"
      and bad: "\<exists>a \<in> set (commentActions crd). time_Parse W (action_Date a) = Inl e"
    by blast
  have "exportCard W c crd
        = (titleBlock W crd
           @ (if Bool_show_labels_and_members c then labelsAndMembersBlock crd else [])
           @ (if Bool_show_description c then descriptionBlock crd else [])
           @ (if Bool_show_attachments c then attachmentsBlock crd else [])
           @ (if Bool_show_checklists c then checklistsBlock crd else []), Panic e)"
    unfolding exportCard_def printCardTitle_Ok[OF t] labels_step_eq[OF lm] description_step
      attachments_step_eq[OF att] checklists_step_eq[OF chk]
    using flag e by simp
  with bad show ?thesis
    by blast
qed

lemma cards_loop_panics:
  "list_all (\<lambda>crd. cardClean W c crd \<or> panicsAtComments W c crd) cs \<Longrightarrow>
   list_ex (panicsAtComments W c) cs \<Longrightarrow>
   \<exists>e. snd (forEach (exportCard W c) cs) = Panic e"
proof (induction cs)
  case Nil
  then show ?case by simp
next
  case (Cons crd cs)
  show ?case
  proof (cases "panicsAtComments W c crd")
    case True
    from card_panics[OF True] obtain e out where "exportCard W c crd = (out, Panic e)"
      by blast
    then show ?thesis
      by simp
  next
    case False
    with Cons.prems have clean: "cardClean W c crd"
      and rest: "list_all (\<lambda>crd. cardClean W c crd \<or> panicsAtComments W c crd) cs"
      and ex: "list_ex (panicsAtComments W c) cs"
      by simp_all
    from clean have ok: "snd (exportCard W c crd) = Ok ()"
      by (simp add: exportCard_Ok_iff)
    from Cons.IH[OF rest ex] obtain e where "snd (forEach (exportCard W c) cs) = Panic e" ..
    with ok show ?thesis
      by (cases "exportCard W c crd") simp
  qed
qed

lemma board_sort_panics:
  assumes "exportedList c board = Some l" and "list_Cards l = Inr cards"
      and "cardsSortFault W cards"
  shows "\<exists>e. exportBoard W c board = (''### '' @ board_Name board @ ''\<newline>'', Panic e)
           \<and> (\<exists>crd \<in> set cards. time_Parse W (card_DateLastActivity crd) = Inl e)"
proof -
  from assms(1) have l: "getList board (String_list_filter c) = Ok l"
    by (simp add: getList_Ok_iff)
  from assms(3) cards_sortsBy[of W]
  have "\<exists>x \<in> set cards. \<exists>e. time_Parse W (card_DateLastActivity x) = Inl e
          \<and> sort_Slice cards (cardLess W) = Panic e"
    unfolding sortsBy_def cardsSortFault_def by blast
  with getCards_Inr[OF assms(2), of W] l show ?thesis
    by (auto simp: exportBoard_cases)
qed

lemma board_panics:
  assumes "boardPanics W c board"
  shows "\<exists>e. snd (exportBoard W c board) = Panic e"
proof -
  from assms obtain l cards where el: "exportedList c board = Some l"
    and cards: "list_Cards l = Inr cards"
    and how: "cardsSortFault W cards
              \<or> (list_all (\<lambda>crd. cardClean W c crd \<or> panicsAtComments W c crd) cards
                 \<and> list_ex (panicsAtComments W c) cards)"
    by (auto simp: boardPanics_def split: option.splits sum.splits)
  from how show ?thesis
  proof
    assume "cardsSortFault W cards"
    from board_sort_panics[OF el cards this] show ?thesis
      by auto
  next
    assume comments: "list_all (\<lambda>crd. cardClean W c crd \<or> panicsAtComments W c crd) cards
                 \<and> list_ex (panicsAtComments W c) cards"
    then have "list_all (\<lambda>crd. parses W (card_DateLastActivity crd)) cards"
      by (auto simp: list_all_iff cardClean_def panicsAtComments_def)
    from getCards_total[OF cards this] obtain cs where cs: "getCards W l = Ok cs" ..
    from getCards_Ok(1)[OF cs] cards have "set cs = set cards"
      by (metis Inr_inject set_mset_mset)
    with comments
    have "list_all (\<lambda>crd. cardClean W c crd \<or> panicsAtComments W c crd) cs"
      and "list_ex (panicsAtComments W c) cs"
      by (simp_all add: list_all_iff list_ex_iff)
    from cards_loop_panics[OF this] obtain e
      where "snd (forEach (exportCard W c) cs) = Panic e" ..
    moreover from el have "getList board (String_list_filter c) = Ok l"
      by (simp add: getList_Ok_iff)
    ultimately show ?thesis
      using cs by (simp add: exportBoard_cases)
  qed
qed

lemma getBoards_delivered:
  "map (client_Board client) ids = map Inr boards \<Longrightarrow> getBoards client ids = Ok boards"
  by (induction ids arbitrary: boards) auto

lemma run_panics:
  assumes client: "trello_NewAuthClient W (GlobalString_key c) (GlobalString_token c) = Inr client"
      and delivered: "map (client_Board client) (StringSlice_board_id c)
                      = map Inr (pre @ board # post)"
      and pre: "list_all (boardClean W c) pre"
      and board: "boardPanics W c board"
  shows "\<exists>e. snd (exportBoards W c) = Panic e"
proof -
  from getBoards_delivered[OF delivered]
  have boards: "getBoards client (StringSlice_board_id c) = Ok (pre @ board # post)" .
  from pre have "snd (forEach (exportBoard W c) pre) = Ok ()"
    by (simp add: export_boards_Ok_iff)
  moreover from board_panics[OF board] obtain e
    where "snd (exportBoard W c board) = Panic e" ..
  ultimately have "snd (forEach (exportBoard W c) (pre @ board # post)) = Panic e"
    by (cases "forEach (exportBoard W c) pre"; cases "exportBoard W c board")
       (simp add: forEach_append)
  with client boards show ?thesis
    by (simp add: exportBoards_cases)
qed

text \<open>
  C7, as amended. A run returns without an error exactly when nothing it reads is at
  fault: any retrieval error (client, board, lists, cards, and the members, attachments,
  checklists and actions the flags ask for), a missing list, or a malformed timestamp
  makes the run fail. A run prints exactly the texts that its script has before the first
  failure and ends with that failure, so that nothing is read, printed or retried after
  it; a loop that has failed stays as it is whatever cards or boards follow. The failure
  is an error returned as a value, except when a sort comparator meets a malformed
  timestamp, which happens in \<open>getCards\<close> exactly when two or more cards are delivered and
  one of their timestamps is malformed, and in \<open>getCardComments\<close> exactly when the card has
  two or more comments and one of their dates is malformed: then the run panics instead.
  A run whose boards are without a fault up to one that panics ends in a panic; a board
  whose card sort meets a malformed timestamp prints its header and panics with the parse
  error of one of its cards; a card whose comment sort does prints its sections before
  the comments and panics with the parse error of one of its comments.
\<close>

theorem failures_abort_export:
  "(snd (exportBoards W c) = Ok () \<longleftrightarrow> exportClean W c)
   \<and> (\<exists>srtC srtA.
         sortsBy W card_DateLastActivity srtC \<and> sortsBy W action_Date srtA
         \<and> fst (exportBoards W c) = emitted (documentScript W c srtC srtA)
         \<and> snd (exportBoards W c) = outcome (documentScript W c srtC srtA))
   \<and> (\<not> exportClean W c \<and> \<not> exportSortFault W c \<longrightarrow> (\<exists>e. snd (exportBoards W c) = Err e))
   \<and> ((\<exists>e. snd (exportBoards W c) = Panic e) \<longrightarrow> exportSortFault W c)
   \<and> (trello_NewAuthClient W (GlobalString_key c) (GlobalString_token c) = Inr client
        \<and> map (client_Board client) (StringSlice_board_id c) = map Inr (pre @ board # post)
        \<and> list_all (boardClean W c) pre \<and> boardPanics W c board \<longrightarrow>
        (\<exists>e. snd (exportBoards W c) = Panic e))
   \<and> (exportedList c board = Some l \<and> list_Cards l = Inr cards \<and> cardsSortFault W cards \<longrightarrow>
        (\<exists>e. exportBoard W c board = (''### '' @ board_Name board @ ''\<newline>'', Panic e)
           \<and> (\<exists>crd \<in> set cards. time_Parse W (card_DateLastActivity crd) = Inl e)))
   \<and> (panicsAtComments W c crd \<longrightarrow>
        (\<exists>e. exportCard W c crd
              = (titleBlock W crd
                 @ (if Bool_show_labels_and_members c then labelsAndMembersBlock crd else [])
                 @ (if Bool_show_description c then descriptionBlock crd else [])
                 @ (if Bool_show_attachments c then attachmentsBlock crd else [])
                 @ (if Bool_show_checklists c then checklistsBlock crd else []), Panic e)
           \<and> (\<exists>a \<in> set (commentActions crd). time_Parse W (action_Date a) = Inl e)))
   \<and> ((\<exists>e. getCards W l = Panic e)
        \<longleftrightarrow> (\<exists>cards. list_Cards l = Inr cards \<and> cardsSortFault W cards))
   \<and> ((\<exists>e. getCardComments W crd = Panic e) \<longleftrightarrow> commentsSortFault W crd)
   \<and> (snd (forEach (exportCard W c) cs) \<noteq> Ok () \<longrightarrow>
        forEach (exportCard W c) (cs @ cs') = forEach (exportCard W c) cs)
   \<and> (snd (forEach (exportBoard W c) bs) \<noteq> Ok () \<longrightarrow>
        forEach (exportBoard W c) (bs @ bs') = forEach (exportBoard W c) bs)"
proof (intro conjI)
  show "snd (exportBoards W c) = Ok () \<longleftrightarrow> exportClean W c"
    by (rule exportBoards_Ok_iff)
  show "\<exists>srtC srtA.
         sortsBy W card_DateLastActivity srtC \<and> sortsBy W action_Date srtA
         \<and> fst (exportBoards W c) = emitted (documentScript W c srtC srtA)
         \<and> snd (exportBoards W c) = outcome (documentScript W c srtC srtA)"
    using exportBoards_script[of W c] cards_sortsBy[of W] actions_sortsBy[of W]
    by (auto simp: perform_def)
  show "\<not> exportClean W c \<and> \<not> exportSortFault W c \<longrightarrow> (\<exists>e. snd (exportBoards W c) = Err e)"
    using exportBoards_Ok_iff[of W c] exportBoards_Panic[of W c]
    by (cases "snd (exportBoards W c)") auto
  show "(\<exists>e. snd (exportBoards W c) = Panic e) \<longrightarrow> exportSortFault W c"
    using exportBoards_Panic by blast
  show "trello_NewAuthClient W (GlobalString_key c) (GlobalString_token c) = Inr client
        \<and> map (client_Board client) (StringSlice_board_id c) = map Inr (pre @ board # post)
        \<and> list_all (boardClean W c) pre \<and> boardPanics W c board \<longrightarrow>
        (\<exists>e. snd (exportBoards W c) = Panic e)"
    using run_panics by blast
  show "exportedList c board = Some l \<and> list_Cards l = Inr cards \<and> cardsSortFault W cards \<longrightarrow>
        (\<exists>e. exportBoard W c board = (''### '' @ board_Name board @ ''\<newline>'', Panic e)
           \<and> (\<exists>crd \<in> set cards. time_Parse W (card_DateLastActivity crd) = Inl e))"
    using board_sort_panics by blast
  show "panicsAtComments W c crd \<longrightarrow>
        (\<exists>e. exportCard W c crd
              = (titleBlock W crd
                 @ (if Bool_show_labels_and_members c then labelsAndMembersBlock crd else [])
                 @ (if Bool_show_description c then descriptionBlock crd else [])
                 @ (if Bool_show_attachments c then attachmentsBlock crd else [])
                 @ (if Bool_show_checklists c then checklistsBlock crd else []), Panic e)
           \<and> (\<exists>a \<in> set (commentActions crd). time_Parse W (action_Date a) = Inl e))"
    using card_panics by blast
  show "(\<exists>e. getCards W l = Panic e)
        \<longleftrightarrow> (\<exists>cards. list_Cards l = Inr cards \<and> cardsSortFault W cards)"
    by (rule getCards_Panic_iff)
  show "(\<exists>e. getCardComments W crd = Panic e) \<longleftrightarrow> commentsSortFault W crd"
    by (rule getCardComments_Panic_iff)
  show "snd (forEach (exportCard W c) cs) \<noteq> Ok () \<longrightarrow>
        forEach (exportCard W c) (cs @ cs') = forEach (exportCard W c) cs"
    by (simp add: forEach_abort)
  show "snd (forEach (exportBoard W c) bs) \<noteq> Ok () \<longrightarrow>
        forEach (exportBoard W c) (bs @ bs') = forEach (exportBoard W c) bs"
    by (simp add: forEach_abort)
qed

lemma offlineWorld_faults:
  "\<not> exportClean offlineWorld (allFlags [''b1''])"
  "\<not> exportSortFault offlineWorld (allFlags [''b1''])"
  by (simp_all add: exportClean_def exportSortFault_def offlineWorld_def utcWorld_def
      allFlags_def)

lemma offlineWorld_run:
  "exportBoards offlineWorld (allFlags [''b1''])
   = (''## 2024-06-01\<newline>'', Err (ApiError ''board not found''))"
  by (simp add: exportBoards_cases offlineWorld_def utcWorld_def allFlags_def utc_samples)

lemma brokenBoard_panics: "boardPanics brokenWorld (titlesOnly ids) brokenBoard"
  by (simp add: boardPanics_def exportedList_def brokenBoard_def titlesOnly_def
      cardsSortFault_def parses_def stampedCard_def brokenWorld_def utcWorld_def utc_samples)

lemma quarrelCard_panics: "panicsAtComments offlineWorld (commentsOnly ids) quarrelCard"
  by (simp add: panicsAtComments_def commentsSortFault_def commentActions_def answer_def
      commentsOnly_def quarrelCard_def stampedCard_def sampleAction_def parses_def
      offlineWorld_def utcWorld_def utc_samples)

theorem failures_abort_export_witness:
  "exportBoards brokenWorld (titlesOnly [''b3''])
     = (''## 2024-06-01\<newline>### B3\<newline>'', Panic (ParseError ''yesterday''))
   \<and> exportSortFault brokenWorld (titlesOnly [''b3''])
   \<and> \<not> exportClean brokenWorld (titlesOnly [''b3''])
   \<and> exportBoard brokenWorld (titlesOnly [''b3'']) brokenBoard
     = (''### B3\<newline>'', Panic (ParseError ''yesterday''))
   \<and> exportCard offlineWorld (commentsOnly []) quarrelCard
     = (''#### **2024-03-01** [quarrel](u)\<newline>'', Panic (ParseError ''yesterday''))
   \<and> \<not> exportClean offlineWorld (allFlags [''b1''])
   \<and> \<not> exportSortFault offlineWorld (allFlags [''b1''])
   \<and> exportBoards offlineWorld (allFlags [''b1''])
     = (''## 2024-06-01\<newline>'', Err (ApiError ''board not found''))
   \<and> forEach (exportBoard brokenWorld (titlesOnly [''b3''])) ([brokenBoard] @ [unsortedBoard])
     = forEach (exportBoard brokenWorld (titlesOnly [''b3''])) [brokenBoard]
   \<and> forEach (exportCard offlineWorld (allFlags [''b1''])) ([labelledCard] @ [commentedCard])
     = forEach (exportCard offlineWorld (allFlags [''b1''])) [labelledCard]"
proof -
  let ?c = "titlesOnly [''b3'']"
  let ?l = "\<lparr> list_Name = ''Done'',
               list_Cards = Inr [stampedCard ''good'' ''2024-01-05T10:00:00Z'',
                                 stampedCard ''bad'' ''yesterday''] \<rparr>"
  let ?cards = "[stampedCard ''good'' ''2024-01-05T10:00:00Z'', stampedCard ''bad'' ''yesterday'']"
  note broken = failures_abort_export[of brokenWorld ?c
      "\<lparr> client_Board = (\<lambda>boardId. Inr brokenBoard) \<rparr>" "[]" brokenBoard "[]" ?l ?cards
      quarrelCard "[]" "[]" "[brokenBoard]" "[unsortedBoard]"]
  have client: "trello_NewAuthClient brokenWorld (GlobalString_key ?c) (GlobalString_token ?c)
                = Inr \<lparr> client_Board = (\<lambda>boardId. Inr brokenBoard) \<rparr>"
    by (simp add: brokenWorld_def utcWorld_def)
  have delivered: "map (client_Board \<lparr> client_Board = (\<lambda>boardId. Inr brokenBoard) \<rparr>)
                     (StringSlice_board_id ?c) = map Inr ([] @ brokenBoard # [])"
    by (simp add: titlesOnly_def)
  from broken[THEN conjunct2, THEN conjunct2, THEN conjunct2, THEN conjunct2, THEN conjunct1] client delivered brokenBoard_panics[of "[''b3'']"]
  obtain e where "snd (exportBoards brokenWorld ?c) = Panic e"
    by auto
  with brokenWorld_run
  have run: "exportBoards brokenWorld ?c
             = (''## 2024-06-01\<newline>### B3\<newline>'', Panic (ParseError ''yesterday''))"
    by simp
  then have panic: "snd (exportBoards brokenWorld ?c) = Panic (ParseError ''yesterday'')"
    by simp
  from broken[THEN conjunct2, THEN conjunct2, THEN conjunct2, THEN conjunct1] panic have fault: "exportSortFault brokenWorld ?c"
    by blast
  from broken[THEN conjunct1] panic have unclean: "\<not> exportClean brokenWorld ?c"
    by simp
  have el: "exportedList ?c brokenBoard = Some ?l"
    by (simp add: exportedList_def brokenBoard_def titlesOnly_def)
  have sortFault: "cardsSortFault brokenWorld ?cards"
    by (simp add: cardsSortFault_def parses_def stampedCard_def brokenWorld_def utcWorld_def
        utc_samples)
  from broken[THEN conjunct2, THEN conjunct2, THEN conjunct2, THEN conjunct2, THEN conjunct2, THEN conjunct1] el sortFault
  obtain e' where "exportBoard brokenWorld ?c brokenBoard
                   = (''### '' @ board_Name brokenBoard @ ''\<newline>'', Panic e')"
    by auto
  with brokenBoard_run[of "[''b3'']"]
  have brd: "exportBoard brokenWorld ?c brokenBoard
             = (''### B3\<newline>'', Panic (ParseError ''yesterday''))"
    by simp
  have "snd (forEach (exportBoard brokenWorld ?c) [brokenBoard]) \<noteq> Ok ()"
    by (simp add: brokenBoard_run)
  with broken[THEN conjunct2, THEN conjunct2, THEN conjunct2, THEN conjunct2, THEN conjunct2, THEN conjunct2, THEN conjunct2, THEN conjunct2, THEN conjunct2, THEN conjunct2] have stop: "forEach (exportBoard brokenWorld ?c) ([brokenBoard] @ [unsortedBoard])
     = forEach (exportBoard brokenWorld ?c) [brokenBoard]"
    by blast
  note offline = failures_abort_export[of offlineWorld "allFlags [''b1'']"
      "\<lparr> client_Board = (\<lambda>boardId. Inl (ApiError ''board not found'')) \<rparr>" "[]" brokenBoard "[]"
      ?l ?cards quarrelCard "[labelledCard]" "[commentedCard]" "[]" "[]"]
  note comments = failures_abort_export[of offlineWorld "commentsOnly []"
      "\<lparr> client_Board = (\<lambda>boardId. Inl (ApiError ''board not found'')) \<rparr>" "[]" brokenBoard "[]"
      ?l ?cards quarrelCard "[]" "[]" "[]" "[]"]
  from comments[THEN conjunct2, THEN conjunct2, THEN conjunct2, THEN conjunct2, THEN conjunct2, THEN conjunct2, THEN conjunct1] quarrelCard_panics[of "[]"]
  obtain e'' where "exportCard offlineWorld (commentsOnly []) quarrelCard
      = (titleBlock offlineWorld quarrelCard
         @ (if Bool_show_labels_and_members (commentsOnly []) then labelsAndMembersBlock quarrelCard else [])
         @ (if Bool_show_description (commentsOnly []) then descriptionBlock quarrelCard else [])
         @ (if Bool_show_attachments (commentsOnly []) then attachmentsBlock quarrelCard else [])
         @ (if Bool_show_checklists (commentsOnly []) then checklistsBlock quarrelCard else []),
         Panic e'')"
    and "\<exists>a \<in> set (commentActions quarrelCard). time_Parse offlineWorld (action_Date a) = Inl e''"
    by blast
  moreover have "titleBlock offlineWorld quarrelCard = ''#### **2024-03-01** [quarrel](u)\<newline>''"
    by (simp add: titleBlock_def quarrelCard_def stampedCard_def offlineWorld_def utcWorld_def
        utc_samples)
  moreover have "\<not> Bool_show_labels_and_members (commentsOnly [])"
    "\<not> Bool_show_description (commentsOnly [])"
    "\<not> Bool_show_attachments (commentsOnly [])" "\<not> Bool_show_checklists (commentsOnly [])"
    by (simp_all add: commentsOnly_def)
  moreover have "\<And>a err. a \<in> set (commentActions quarrelCard) \<Longrightarrow>
      time_Parse offlineWorld (action_Date a) = Inl err \<Longrightarrow> err = ParseError ''yesterday''"
    by (auto simp: commentActions_def answer_def quarrelCard_def stampedCard_def
        sampleAction_def offlineWorld_def utcWorld_def utc_samples)
  ultimately have crd: "exportCard offlineWorld (commentsOnly []) quarrelCard
      = (''#### **2024-03-01** [quarrel](u)\<newline>'', Panic (ParseError ''yesterday''))"
    by auto
  have "snd (forEach (exportCard offlineWorld (allFlags [''b1''])) [labelledCard]) \<noteq> Ok ()"
    by (simp add: export_cards_Ok_iff cardClean_def labelledCard_def allFlags_def answered_def
        del: forEach.simps)
  with offline[THEN conjunct2, THEN conjunct2, THEN conjunct2, THEN conjunct2, THEN conjunct2, THEN conjunct2, THEN conjunct2, THEN conjunct2, THEN conjunct2, THEN conjunct1]
  have cut: "forEach (exportCard offlineWorld (allFlags [''b1''])) ([labelledCard] @ [commentedCard])
     = forEach (exportCard offlineWorld (allFlags [''b1''])) [labelledCard]"
    by blast
  from offline[THEN conjunct2, THEN conjunct2, THEN conjunct1] offlineWorld_faults obtain e3
    where "snd (exportBoards offlineWorld (allFlags [''b1''])) = Err e3"
    by blast
  with offlineWorld_run
  have err: "exportBoards offlineWorld (allFlags [''b1''])
             = (''## 2024-06-01\<newline>'', Err (ApiError ''board not found''))"
    by simp
  from run fault unclean brd crd offlineWorld_faults err stop cut show ?thesis
    by blast
qed

end
